theory Spec2Isabelle
  imports Complex_Main
begin

section \<open>Python values, errors and dictionaries\<close>

text \<open>
  The module \<^verbatim>\<open>heartpy/visualizeutils.py\<close> works on two dictionaries, \<^verbatim>\<open>working_data\<close>
  and \<^verbatim>\<open>measures\<close>, whose values are numbers, lists, numpy arrays and nested
  dictionaries. \<open>PInt\<close> and \<open>PFloat\<close> are Python's own \<^verbatim>\<open>int\<close> and \<^verbatim>\<open>float\<close>; a
  \<^verbatim>\<open>float\<close> is a finite binary64 number, held as its exact value. Infinities, NaN
  and numpy's scalar types are outside the model. \<open>PList\<close> stands for a list or a
  tuple, \<open>PArray\<close> for a one-dimensional numpy array of binary64 numbers.
  The signal plotter and the report round every arithmetic result as binary64
  arithmetic does (\<open>fl\<close> below). The rotation and the means of the Poincare plotter
  are computed on the exact values.
\<close>

datatype pyval =
    PNone
  | PInt int
  | PFloat real
  | PList "pyval list"
  | PArray "real list"
  | PDict "(string \<times> pyval) list"

text \<open>
  Every exception the code can raise is a value. \<open>Unmodelled\<close> marks an input on which
  the libraries behave in a way this development does not describe (object arrays,
  multi-dimensional arrays, format types other than the ones the source uses,
  infinite results of binary64 arithmetic).
\<close>

datatype py_error =
    KeyError string
  | IndexError
  | TypeError
  | ValueError
  | ZeroDivisionError
  | AssertionError
  | OverflowError
  | Unmodelled

type_synonym 'a result = "py_error + 'a"

type_synonym pydict = "string \<rightharpoonup> pyval"

definition and_then :: "'a result \<Rightarrow> ('a \<Rightarrow> 'b result) \<Rightarrow> 'b result" where
  "and_then r f = (case r of Inl e \<Rightarrow> Inl e | Inr x \<Rightarrow> f x)"

definition getitem :: "pydict \<Rightarrow> string \<Rightarrow> pyval result" where
  \<comment> \<open>\<^verbatim>\<open>d[k]\<close> on a dictionary held in a variable\<close>
  "getitem d k = (case d k of None \<Rightarrow> Inl (KeyError k) | Some v \<Rightarrow> Inr v)"

definition digit_char :: "nat \<Rightarrow> char" where
  "digit_char d = ''0123456789'' ! d"

function dec_digits :: "int \<Rightarrow> string" where
  \<comment> \<open>the decimal digits of a number \<open>n \<ge> 0\<close>\<close>
  "dec_digits n =
     (if n < 10 then [digit_char (nat n)]
      else dec_digits (n div 10) @ [digit_char (nat (n mod 10))])"
  by pat_completeness auto
termination
  by (relation "measure nat") auto

declare dec_digits.simps [simp del]

definition str_int :: "int \<Rightarrow> string" where
  \<comment> \<open>\<^verbatim>\<open>'%i' % n\<close>\<close>
  "str_int i = (if i < 0 then ''-'' @ dec_digits (- i) else dec_digits i)"

definition py_len :: "pyval \<Rightarrow> nat result" where
  \<comment> \<open>\<^verbatim>\<open>len(v)\<close>\<close>
  "py_len v =
     (case v of
        PList xs \<Rightarrow> Inr (length xs)
      | PArray xs \<Rightarrow> Inr (length xs)
      | PDict kvs \<Rightarrow> Inr (length kvs)
      | _ \<Rightarrow> Inl TypeError)"

definition list_index :: "'a list \<Rightarrow> int \<Rightarrow> 'a result" where
  \<comment> \<open>sequence indexing; \<^verbatim>\<open>xs[-1]\<close> is the last element\<close>
  "list_index xs i =
     (if 0 \<le> i \<and> i < int (length xs) then Inr (xs ! nat i)
      else if i < 0 \<and> - i \<le> int (length xs) then Inr (xs ! nat (int (length xs) + i))
      else Inl IndexError)"

definition subscript :: "pyval \<Rightarrow> int \<Rightarrow> pyval result" where
  \<comment> \<open>\<^verbatim>\<open>v[i]\<close> for an integer \<^verbatim>\<open>i\<close>\<close>
  "subscript v i =
     (case v of
        PList xs \<Rightarrow> list_index xs i
      | PArray xs \<Rightarrow> and_then (list_index xs i) (\<lambda>x. Inr (PFloat x))
      | PDict kvs \<Rightarrow> Inl (KeyError (str_int i))
      | _ \<Rightarrow> Inl TypeError)"

definition subscript_key :: "pyval \<Rightarrow> string \<Rightarrow> pyval result" where
  \<comment> \<open>\<^verbatim>\<open>v[k]\<close> for a string \<^verbatim>\<open>k\<close>\<close>
  "subscript_key v k =
     (case v of
        PDict kvs \<Rightarrow> (case map_of kvs k of None \<Rightarrow> Inl (KeyError k) | Some x \<Rightarrow> Inr x)
      | _ \<Rightarrow> Inl TypeError)"

fun numbers :: "pyval list \<Rightarrow> real list option" where
  "numbers [] = Some []"
| "numbers (v # vs) =
     (case v of
        PInt i \<Rightarrow> map_option ((#) (of_int i)) (numbers vs)
      | PFloat x \<Rightarrow> map_option ((#) x) (numbers vs)
      | _ \<Rightarrow> None)"

definition as_array :: "pyval \<Rightarrow> real list result" where
  \<comment> \<open>what numpy and the plotting calls make of an array-like argument\<close>
  "as_array v =
     (case v of
        PArray xs \<Rightarrow> Inr xs
      | PList vs \<Rightarrow> (case numbers vs of Some xs \<Rightarrow> Inr xs | None \<Rightarrow> Inl Unmodelled)
      | PInt i \<Rightarrow> Inr [of_int i]
      | PFloat x \<Rightarrow> Inr [x]
      | _ \<Rightarrow> Inl Unmodelled)"

section \<open>Decimal rendering of numbers\<close>

definition round_half_even :: "real \<Rightarrow> int" where
  "round_half_even y =
     (let f = \<lfloor>y\<rfloor>; d = y - of_int f
      in if d < 1 / 2 then f else if 1 / 2 < d then f + 1 else if even f then f else f + 1)"

definition zero_pad :: "nat \<Rightarrow> string \<Rightarrow> string" where
  "zero_pad n ds = replicate (n - length ds) (CHR ''0'') @ ds"

definition fmt_f :: "nat \<Rightarrow> real \<Rightarrow> string" where
  \<comment> \<open>\<^verbatim>\<open>'%.pf' % x\<close>: fixed notation with \<open>p\<close> decimals\<close>
  "fmt_f p x =
     (let n = round_half_even (\<bar>x\<bar> * 10 ^ p)
      in (if x < 0 then ''-'' else '''') @ dec_digits (n div 10 ^ p)
         @ (if p = 0 then '''' else ''.'' @ zero_pad p (dec_digits (n mod 10 ^ p))))"

function dec_exp_up :: "real \<Rightarrow> int \<Rightarrow> int" where
  "dec_exp_up x e = (if 10 \<le> x then dec_exp_up (x / 10) (e + 1) else e)"
  by pat_completeness auto
termination
proof (relation "measure (\<lambda>(x, e). nat \<lfloor>x\<rfloor>)")
  show "wf (measure (\<lambda>(x :: real, e :: int). nat \<lfloor>x\<rfloor>))" by simp
next
  fix x :: real and e :: int
  assume "10 \<le> x"
  then have "\<lfloor>x / 10\<rfloor> < \<lfloor>x\<rfloor>" by linarith
  moreover from \<open>10 \<le> x\<close> have "0 < \<lfloor>x\<rfloor>" by linarith
  ultimately show "((x / 10, e + 1), (x, e)) \<in> measure (\<lambda>(x, e). nat \<lfloor>x\<rfloor>)" by simp
qed

function dec_exp_down :: "real \<Rightarrow> int \<Rightarrow> int" where
  "dec_exp_down x e = (if 0 < x \<and> x < 1 then dec_exp_down (x * 10) (e - 1) else e)"
  by pat_completeness auto
termination
proof (relation "measure (\<lambda>(x, e). nat \<lfloor>1 / x\<rfloor>)")
  show "wf (measure (\<lambda>(x :: real, e :: int). nat \<lfloor>1 / x\<rfloor>))" by simp
next
  fix x :: real and e :: int
  assume a: "0 < x \<and> x < 1"
  define y where "y = 1 / x"
  from a have "1 < y" by (simp add: y_def)
  then have pos: "1 \<le> \<lfloor>y\<rfloor>" by linarith
  have "y < of_int \<lfloor>y\<rfloor> + 1" by linarith
  with pos have "y / 10 < of_int \<lfloor>y\<rfloor>" by linarith
  then have lt: "\<lfloor>y / 10\<rfloor> < \<lfloor>y\<rfloor>" by (simp only: floor_less_iff)
  have e: "1 / (x * 10) = y / 10" by (simp add: y_def)
  have "nat \<lfloor>y / 10\<rfloor> < nat \<lfloor>y\<rfloor>" using lt pos by linarith
  then have "nat \<lfloor>1 / (x * 10)\<rfloor> < nat \<lfloor>1 / x\<rfloor>" unfolding e unfolding y_def .
  then show "((x * 10, e - 1), (x, e)) \<in> measure (\<lambda>(x, e). nat \<lfloor>1 / x\<rfloor>)"
    by (simp only: in_measure prod.case)
qed

declare dec_exp_up.simps [simp del] dec_exp_down.simps [simp del]

definition dec_exp :: "real \<Rightarrow> int" where
  \<comment> \<open>the decimal exponent of a positive number: \<open>10 ^ e \<le> x < 10 ^ (e + 1)\<close>\<close>
  "dec_exp x = (if 1 \<le> x then dec_exp_up x 0 else dec_exp_down x 0)"

definition scale10 :: "real \<Rightarrow> int \<Rightarrow> real" where
  "scale10 x k = (if 0 \<le> k then x * 10 ^ nat k else x / 10 ^ nat (- k))"

definition sig_digits :: "nat \<Rightarrow> real \<Rightarrow> int \<times> int" where
  \<comment> \<open>\<open>x \<ge> 0\<close> rounded to \<open>p\<close> significant digits: the digits as a number, and the exponent\<close>
  "sig_digits p x =
     (if x = 0 then (0, 0)
      else let e = dec_exp x; n = round_half_even (scale10 x (int p - 1 - e))
           in if 10 ^ p \<le> n then (n div 10, e + 1) else (n, e))"

definition strip_zeros :: "string \<Rightarrow> string" where
  \<comment> \<open>without \<^verbatim>\<open>#\<close>, trailing zeros of the fraction go, and then a trailing point\<close>
  "strip_zeros s =
     (let t = rev (dropWhile (\<lambda>c. c = CHR ''0'') (rev s))
      in if t \<noteq> [] \<and> last t = CHR ''.'' then butlast t else t)"

definition fmt_g :: "nat \<Rightarrow> bool \<Rightarrow> real \<Rightarrow> string" where
  \<comment> \<open>general format \<^verbatim>\<open>g\<close> of a magnitude \<open>x \<ge> 0\<close> at precision \<open>p\<close>, \<open>alt\<close> for \<^verbatim>\<open>#\<close>\<close>
  "fmt_g p alt x =
     (let q = (if p = 0 then 1 else p);
          (n, e) = sig_digits q x;
          ds = zero_pad q (dec_digits n);
          keep = (\<lambda>s. if alt then s else strip_zeros s)
      in if - 4 \<le> e \<and> e < int q then
           keep (if 0 \<le> e then take (nat e + 1) ds @ ''.'' @ drop (nat e + 1) ds
                 else ''0.'' @ replicate (nat (- e) - 1) (CHR ''0'') @ ds)
         else keep (take 1 ds @ ''.'' @ drop 1 ds)
              @ ''e'' @ (if e < 0 then ''-'' else ''+'') @ zero_pad 2 (dec_digits \<bar>e\<bar>))"

section \<open>Binary floating point\<close>

text \<open>
  A \<^verbatim>\<open>float\<close> holds a binary64 number, here its exact value as a real. The result of
  an arithmetic operation is the exact result rounded to the nearest binary64 number,
  ties to even, by \<open>fl\<close>: 53 significant bits, and below \<open>2\<^sup>-\<^sup>1\<^sup>0\<^sup>2\<^sup>2\<close> a fixed spacing
  of \<open>2\<^sup>-\<^sup>1\<^sup>0\<^sup>7\<^sup>4\<close>. A rounded result beyond \<open>max_double\<close> is an infinity in the
  program, which is not a value of the model.
\<close>

function bin_exp_up :: "real \<Rightarrow> int \<Rightarrow> int" where
  "bin_exp_up x e = (if 2 \<le> x then bin_exp_up (x / 2) (e + 1) else e)"
  by pat_completeness auto
termination
proof (relation "measure (\<lambda>(x, e). nat \<lfloor>x\<rfloor>)")
  show "wf (measure (\<lambda>(x :: real, e :: int). nat \<lfloor>x\<rfloor>))" by simp
next
  fix x :: real and e :: int
  assume "2 \<le> x"
  then have "\<lfloor>x / 2\<rfloor> < \<lfloor>x\<rfloor>" and "0 < \<lfloor>x\<rfloor>" by linarith+
  then have "nat \<lfloor>x / 2\<rfloor> < nat \<lfloor>x\<rfloor>" by linarith
  then show "((x / 2, e + 1), (x, e)) \<in> measure (\<lambda>(x, e). nat \<lfloor>x\<rfloor>)"
    by (simp only: in_measure prod.case)
qed

function bin_exp_down :: "real \<Rightarrow> int \<Rightarrow> int" where
  "bin_exp_down x e = (if 0 < x \<and> x < 1 then bin_exp_down (x * 2) (e - 1) else e)"
  by pat_completeness auto
termination
proof (relation "measure (\<lambda>(x, e). nat \<lfloor>1 / x\<rfloor>)")
  show "wf (measure (\<lambda>(x :: real, e :: int). nat \<lfloor>1 / x\<rfloor>))" by simp
next
  fix x :: real and e :: int
  assume a: "0 < x \<and> x < 1"
  define y where "y = 1 / x"
  from a have "1 < y" by (simp add: y_def)
  then have pos: "1 \<le> \<lfloor>y\<rfloor>" by linarith
  have "y < of_int \<lfloor>y\<rfloor> + 1" by linarith
  with pos have "y / 2 < of_int \<lfloor>y\<rfloor>" by linarith
  then have lt: "\<lfloor>y / 2\<rfloor> < \<lfloor>y\<rfloor>" by (simp only: floor_less_iff)
  have e: "1 / (x * 2) = y / 2" by (simp add: y_def)
  have "nat \<lfloor>y / 2\<rfloor> < nat \<lfloor>y\<rfloor>" using lt pos by linarith
  then have "nat \<lfloor>1 / (x * 2)\<rfloor> < nat \<lfloor>1 / x\<rfloor>" unfolding e unfolding y_def .
  then show "((x * 2, e - 1), (x, e)) \<in> measure (\<lambda>(x, e). nat \<lfloor>1 / x\<rfloor>)"
    by (simp only: in_measure prod.case)
qed

declare bin_exp_up.simps [simp del] bin_exp_down.simps [simp del]

definition bin_exp :: "real \<Rightarrow> int" where
  \<comment> \<open>the binary exponent of a positive number: \<open>2 ^ e \<le> x < 2 ^ (e + 1)\<close>\<close>
  "bin_exp x = (if 1 \<le> x then bin_exp_up x 0 else bin_exp_down x 0)"

definition scale2 :: "real \<Rightarrow> int \<Rightarrow> real" where
  "scale2 x k = (if 0 \<le> k then x * 2 ^ nat k else x / 2 ^ nat (- k))"

definition fl :: "real \<Rightarrow> real" where
  "fl x =
     (if x = 0 then 0
      else let e = max (bin_exp \<bar>x\<bar>) (- 1022)
           in scale2 (of_int (round_half_even (scale2 x (52 - e)))) (e - 52))"

definition max_double :: real where
  "max_double = (2 ^ 53 - 1) * 2 ^ 971"

definition int_to_float :: "int \<Rightarrow> real result" where
  \<comment> \<open>\<^verbatim>\<open>float(i)\<close>\<close>
  "int_to_float i =
     (let y = fl (of_int i) in if max_double < \<bar>y\<bar> then Inl OverflowError else Inr y)"

definition int_truediv :: "int \<Rightarrow> int \<Rightarrow> real result" where
  \<comment> \<open>\<^verbatim>\<open>a / b\<close> on two \<^verbatim>\<open>int\<close>s: the quotient, correctly rounded\<close>
  "int_truediv a b =
     (if b = 0 then Inl ZeroDivisionError
      else let q = fl (of_int a / of_int b)
           in if max_double < \<bar>q\<bar> then Inl OverflowError else Inr q)"

section \<open>The format-specification mini-language\<close>

text \<open>
  \<^verbatim>\<open>report\<close> builds its lines with \<^verbatim>\<open>str.format\<close>. The templates are kept as the
  source writes them and are parsed here:
  \<^verbatim>\<open>[[fill]align][sign][#][0][width][.precision][type]\<close>.
\<close>

datatype align = AlignLeft | AlignRight | AlignCenter | AlignPad

datatype sign_opt = SignMinus | SignPlus | SignSpace

record format_spec =
  fs_fill :: "char option"
  fs_align :: "align option"
  fs_sign :: "sign_opt option"
  fs_alt :: bool
  fs_zero :: bool
  fs_width :: "nat option"
  fs_prec :: "nat option"
  fs_type :: "char option"

definition align_of :: "char \<Rightarrow> align option" where
  "align_of c =
     (if c = CHR ''<'' then Some AlignLeft else if c = CHR ''>'' then Some AlignRight
      else if c = CHR ''^'' then Some AlignCenter else if c = CHR ''='' then Some AlignPad
      else None)"

definition sign_of :: "char \<Rightarrow> sign_opt option" where
  "sign_of c =
     (if c = CHR ''+'' then Some SignPlus else if c = CHR ''-'' then Some SignMinus
      else if c = CHR '' '' then Some SignSpace else None)"

definition is_digit :: "char \<Rightarrow> bool" where
  "is_digit c = (c \<in> set ''0123456789'')"

definition digit_val :: "char \<Rightarrow> nat" where
  "digit_val c =
     (case map_of (zip ''0123456789'' [0, 1, 2, 3, 4, 5, 6, 7, 8, 9]) c of
        Some d \<Rightarrow> d | None \<Rightarrow> 0)"

definition nat_of_digits :: "string \<Rightarrow> nat" where
  "nat_of_digits ds = foldl (\<lambda>a c. 10 * a + digit_val c) 0 ds"

definition take_number :: "string \<Rightarrow> nat option \<times> string" where
  "take_number s =
     (let ds = takeWhile is_digit s
      in (if ds = [] then None else Some (nat_of_digits ds), dropWhile is_digit s))"

definition take_flag :: "char \<Rightarrow> string \<Rightarrow> bool \<times> string" where
  "take_flag f s = (case s of c # r \<Rightarrow> if c = f then (True, r) else (False, s) | [] \<Rightarrow> (False, s))"

definition take_align :: "string \<Rightarrow> char option \<times> align option \<times> string" where
  "take_align s =
     (case s of
        f # a # r \<Rightarrow>
          (if align_of a \<noteq> None then (Some f, align_of a, r)
           else if align_of f \<noteq> None then (None, align_of f, a # r)
           else (None, None, s))
      | [a] \<Rightarrow> (if align_of a \<noteq> None then (None, align_of a, []) else (None, None, s))
      | [] \<Rightarrow> (None, None, s))"

definition take_sign :: "string \<Rightarrow> sign_opt option \<times> string" where
  "take_sign s =
     (case s of c # r \<Rightarrow> (if sign_of c \<noteq> None then (sign_of c, r) else (None, s))
      | [] \<Rightarrow> (None, s))"

definition parse_spec :: "string \<Rightarrow> format_spec result" where
  "parse_spec s =
     (let (fill, al, r1) = take_align s;
          (sg, r2) = take_sign r1;
          (alt, r3) = take_flag (CHR ''#'') r2;
          (zero, r4) = (if fill = None then take_flag (CHR ''0'') r3 else (False, r3));
          (w, r5) = take_number r4;
          (dot, r6) = take_flag (CHR ''.'') r5;
          (p, r7) = (if dot then take_number r6 else (None, r6))
      in if r2 \<noteq> [] \<and> hd r2 = CHR ''z'' then Inl Unmodelled
         else if r5 \<noteq> [] \<and> (hd r5 = CHR '','' \<or> hd r5 = CHR ''_'') then Inl Unmodelled
         else if dot \<and> p = None then Inl ValueError
         else if 1 < length r7 then Inl ValueError
         else Inr \<lparr>fs_fill = fill, fs_align = al, fs_sign = sg, fs_alt = alt, fs_zero = zero,
                   fs_width = w, fs_prec = p,
                   fs_type = (case r7 of [] \<Rightarrow> None | t # _ \<Rightarrow> Some t)\<rparr>)"

definition pad :: "char \<Rightarrow> align \<Rightarrow> nat \<Rightarrow> string \<Rightarrow> string \<Rightarrow> string" where
  \<comment> \<open>the field \<open>sg @ body\<close> filled to the width; \<open>AlignPad\<close> fills after the sign\<close>
  "pad fill al w sg body =
     (let n = w - length (sg @ body)
      in case al of
           AlignLeft \<Rightarrow> sg @ body @ replicate n fill
         | AlignRight \<Rightarrow> replicate n fill @ sg @ body
         | AlignCenter \<Rightarrow> replicate (n div 2) fill @ sg @ body @ replicate (n - n div 2) fill
         | AlignPad \<Rightarrow> sg @ replicate n fill @ body)"

definition format_str :: "format_spec \<Rightarrow> string \<Rightarrow> string result" where
  \<comment> \<open>\<^verbatim>\<open>str.__format__\<close>\<close>
  "format_str sp s =
     (if fs_sign sp \<noteq> None \<or> fs_alt sp \<or> fs_align sp = Some AlignPad then Inl ValueError
      else if fs_type sp \<noteq> None \<and> fs_type sp \<noteq> Some (CHR ''s'') then Inl ValueError
      else if fs_zero sp then Inl Unmodelled
      else Inr (pad (case fs_fill sp of Some c \<Rightarrow> c | None \<Rightarrow> CHR '' '')
                    (case fs_align sp of Some a \<Rightarrow> a | None \<Rightarrow> AlignLeft)
                    (case fs_width sp of Some w \<Rightarrow> w | None \<Rightarrow> 0)
                    ''''
                    (case fs_prec sp of Some p \<Rightarrow> take p s | None \<Rightarrow> s)))"

definition format_float :: "format_spec \<Rightarrow> real \<Rightarrow> string result" where
  \<comment> \<open>\<^verbatim>\<open>float.__format__\<close>, for the presentation type \<^verbatim>\<open>g\<close>\<close>
  "format_float sp x =
     (if fs_type sp = Some (CHR ''s'') then Inl ValueError
      else if fs_type sp \<noteq> Some (CHR ''g'') then Inl Unmodelled
      else Inr (pad (case fs_fill sp of Some c \<Rightarrow> c
                                      | None \<Rightarrow> if fs_zero sp then CHR ''0'' else CHR '' '')
                    (case fs_align sp of Some a \<Rightarrow> a
                                       | None \<Rightarrow> if fs_zero sp then AlignPad else AlignRight)
                    (case fs_width sp of Some w \<Rightarrow> w | None \<Rightarrow> 0)
                    (if x < 0 then ''-''
                     else case fs_sign sp of Some SignPlus \<Rightarrow> ''+'' | Some SignSpace \<Rightarrow> '' ''
                                           | _ \<Rightarrow> '''')
                    (fmt_g (case fs_prec sp of Some p \<Rightarrow> p | None \<Rightarrow> 6) (fs_alt sp) \<bar>x\<bar>)))"

datatype fmt_arg = FStr string | FVal pyval

definition format_int :: "format_spec \<Rightarrow> int \<Rightarrow> string result" where
  \<comment> \<open>\<^verbatim>\<open>int.__format__\<close> with a presentation type of \<^verbatim>\<open>float\<close>: the number is converted
      first\<close>
  "format_int sp i =
     (if fs_type sp = Some (CHR ''s'') then Inl ValueError
      else if fs_type sp \<noteq> Some (CHR ''g'') then Inl Unmodelled
      else and_then (int_to_float i) (\<lambda>x. format_float sp x))"

definition format_field :: "string \<Rightarrow> fmt_arg \<Rightarrow> string result" where
  \<comment> \<open>\<^verbatim>\<open>format(arg, spec)\<close>\<close>
  "format_field spec a =
     (case a of
        FStr s \<Rightarrow> (if spec = [] then Inr s else and_then (parse_spec spec) (\<lambda>sp. format_str sp s))
      | FVal v \<Rightarrow>
          (if spec = [] then Inl Unmodelled
           else case v of
                  PInt i \<Rightarrow> and_then (parse_spec spec) (\<lambda>sp. format_int sp i)
                | PFloat x \<Rightarrow> and_then (parse_spec spec) (\<lambda>sp. format_float sp x)
                | _ \<Rightarrow> Inl TypeError))"

definition split_field :: "string \<Rightarrow> (string \<times> string) option" where
  \<comment> \<open>the text of a replacement field up to its closing brace, and what follows\<close>
  "split_field cs =
     (if CHR ''}'' \<in> set cs
      then Some (takeWhile (\<lambda>c. c \<noteq> CHR ''}'') cs, drop 1 (dropWhile (\<lambda>c. c \<noteq> CHR ''}'') cs))
      else None)"

definition field_spec :: "string \<Rightarrow> string result" where
  \<comment> \<open>only automatically numbered fields, \<^verbatim>\<open>{}\<close> and \<^verbatim>\<open>{:spec}\<close>\<close>
  "field_spec body =
     (if CHR ''{'' \<in> set body then Inl Unmodelled
      else case body of [] \<Rightarrow> Inr [] | c # r \<Rightarrow> if c = CHR '':'' then Inr r else Inl Unmodelled)"

function py_format :: "string \<Rightarrow> fmt_arg list \<Rightarrow> string result" where
  "py_format [] args = Inr []"
| "py_format (c # cs) args =
     (if c = CHR ''{'' then
        (if cs \<noteq> [] \<and> hd cs = CHR ''{''
         then and_then (py_format (tl cs) args) (\<lambda>r. Inr (CHR ''{'' # r))
         else case split_field cs of
                None \<Rightarrow> Inl ValueError
              | Some (body, rest) \<Rightarrow>
                  and_then (field_spec body) (\<lambda>spec.
                    case args of
                      [] \<Rightarrow> Inl IndexError
                    | a # args' \<Rightarrow>
                        and_then (format_field spec a) (\<lambda>s.
                        and_then (py_format rest args') (\<lambda>r. Inr (s @ r)))))
      else if c = CHR ''}'' then
        (if cs \<noteq> [] \<and> hd cs = CHR ''}''
         then and_then (py_format (tl cs) args) (\<lambda>r. Inr (CHR ''}'' # r))
         else Inl ValueError)
      else and_then (py_format cs args) (\<lambda>r. Inr (c # r)))"
  by pat_completeness auto
termination
proof (relation "measure (\<lambda>(t, args). length t)")
  show "wf (measure (\<lambda>(t :: string, args :: fmt_arg list). length t))" by simp
next
  fix c :: char and cs :: string and args :: "fmt_arg list"
    and x2 :: "string \<times> string" and body rest :: string
  assume "split_field cs = Some x2" and "(body, rest) = x2"
  then have "rest = drop 1 (dropWhile (\<lambda>c. c \<noteq> CHR ''}'') cs)"
    by (auto simp: split_field_def split: if_splits)
  then have "length rest \<le> length cs"
    using length_dropWhile_le [of "\<lambda>c. c \<noteq> CHR ''}''" cs] by simp
  then show "\<And>x xa xb xc. ((rest, xb), c # cs, args) \<in> measure (\<lambda>(t, args). length t)" by simp
qed auto

declare py_format.simps [simp del]

section \<open>Geometry transform\<close>

definition radians :: "real \<Rightarrow> real" where
  \<comment> \<open>\<^verbatim>\<open>np.radians\<close>\<close>
  "radians angle = angle * pi / 180"

definition rotate_vec :: "real \<Rightarrow> real \<Rightarrow> real \<Rightarrow> real \<times> real" where
  "rotate_vec x y angle =
     (let theta = radians angle;
          cs = cos theta;
          sn = sin theta;
          x_rot = (x * cs) - (y * sn);
          y_rot = (x * sn) + (y * cs)
      in (x_rot, y_rot))"

section \<open>The rendering backend\<close>

text \<open>
  The plotting library is an external collaborator. A figure is the list of artists
  added to its axes, in drawing order, with the title and the axis labels. Colours,
  opacity and the legend are left out: no property below depends on them. The
  library refuses a line or a scatter whose coordinate sequences differ in length.
\<close>

datatype artist =
    Line "real list" "real list" string
  | Scatter "real list" "real list" string
  | VSpan real real
  | EllipsePatch "real \<times> real" real real real bool

record figure =
  fig_size :: "(real \<times> real) option"
  fig_title :: string
  fig_xlabel :: string
  fig_ylabel :: string
  fig_artists :: "artist list"

datatype plot_result = Displayed figure | Returned figure

definition subplots :: "(real \<times> real) option \<Rightarrow> figure" where
  "subplots figsize =
     \<lparr>fig_size = figsize, fig_title = '''', fig_xlabel = '''', fig_ylabel = '''', fig_artists = []\<rparr>"

definition add_artist :: "artist \<Rightarrow> figure \<Rightarrow> figure" where
  "add_artist a fig = fig\<lparr>fig_artists := fig_artists fig @ [a]\<rparr>"

definition ax_plot :: "real list \<Rightarrow> real list \<Rightarrow> string \<Rightarrow> figure \<Rightarrow> figure result" where
  "ax_plot xs ys label fig =
     (if length xs \<noteq> length ys then Inl ValueError else Inr (add_artist (Line xs ys label) fig))"

definition ax_scatter :: "real list \<Rightarrow> real list \<Rightarrow> string \<Rightarrow> figure \<Rightarrow> figure result" where
  "ax_scatter xs ys label fig =
     (if length xs \<noteq> length ys then Inl ValueError
      else Inr (add_artist (Scatter xs ys label) fig))"

definition span_bound :: "pyval \<Rightarrow> real result" where
  \<comment> \<open>\<^verbatim>\<open>axvspan\<close> computes \<^verbatim>\<open>xmax - xmin\<close>: numbers pass, \<^verbatim>\<open>None\<close> and lists fail\<close>
  "span_bound v =
     (case v of PInt i \<Rightarrow> Inr (of_int i) | PFloat x \<Rightarrow> Inr x
      | PNone \<Rightarrow> Inl TypeError | PList _ \<Rightarrow> Inl TypeError
      | _ \<Rightarrow> Inl Unmodelled)"

definition axvspan :: "pyval \<Rightarrow> pyval \<Rightarrow> figure \<Rightarrow> figure result" where
  "axvspan a b fig =
     and_then (span_bound a) (\<lambda>x.
     and_then (span_bound b) (\<lambda>y. Inr (add_artist (VSpan x y) fig)))"

definition finish :: "bool \<Rightarrow> figure \<Rightarrow> plot_result" where
  \<comment> \<open>\<^verbatim>\<open>if show: fig.show() else: return fig\<close>\<close>
  "finish show fig = (if show then Displayed fig else Returned fig)"

section \<open>Single-record signal plotter\<close>

type_synonym measures = "(string \<times> pyval) list"

definition measure_item :: "measures \<Rightarrow> string \<Rightarrow> pyval result" where
  \<comment> \<open>\<^verbatim>\<open>measures[k]\<close>; the dictionary keeps its insertion order\<close>
  "measure_item ms k = (case map_of ms k of None \<Rightarrow> Inl (KeyError k) | Some v \<Rightarrow> Inr v)"

definition divisor :: "pyval \<Rightarrow> real result" where
  \<comment> \<open>the sample rate as the right operand of \<^verbatim>\<open>len(hr)/fs\<close>, \<^verbatim>\<open>1/fs\<close> and the two array
      quotients. An \<^verbatim>\<open>int\<close> below \<open>2\<^sup>5\<^sup>3\<close> in size divides as the \<^verbatim>\<open>float\<close> of the same
      value does; a larger one is not modelled\<close>
  "divisor v =
     (case v of
        PInt i \<Rightarrow> (if i = 0 then Inl ZeroDivisionError
                   else if \<bar>i\<bar> < 2 ^ 53 then Inr (of_int i) else Inl Unmodelled)
      | PFloat x \<Rightarrow> (if x = 0 then Inl ZeroDivisionError else Inr x)
      | PArray _ \<Rightarrow> Inl Unmodelled
      | _ \<Rightarrow> Inl TypeError)"

definition time_axis :: "nat \<Rightarrow> real \<Rightarrow> real list result" where
  \<comment> \<open>\<^verbatim>\<open>np.arange(0, n/fs, 1/fs)\<close>: numpy takes \<open>\<lceil>stop / step\<rceil>\<close> points, the quotient
      computed in binary64, and fills in \<open>i * step\<close>. The number of points is not
      always \<open>n\<close>. Infinite operands and huge lengths are not modelled\<close>
  "time_axis n fs =
     (if 2 ^ 53 \<le> int n then Inl Unmodelled
      else let stop = fl (real n / fs); delta = fl (1 / fs)
           in if max_double < \<bar>stop\<bar> \<or> max_double < \<bar>delta\<bar> then Inl Unmodelled
              else if delta = 0 then Inl ZeroDivisionError
              else let count = fl (stop / delta)
                   in if 2 ^ 53 \<le> count then Inl Unmodelled
                      else Inr (map (\<lambda>i. fl (real i * delta)) [0..<nat \<lceil>count\<rceil>]))"

definition finite_quotients :: "real list \<Rightarrow> real \<Rightarrow> bool" where
  "finite_quotients xs fs = list_all (\<lambda>x. \<bar>fl (x / fs)\<bar> \<le> max_double) xs"

definition truediv :: "pyval \<Rightarrow> real \<Rightarrow> pyval result" where
  \<comment> \<open>\<^verbatim>\<open>v / fs\<close> for a number \<^verbatim>\<open>fs\<close>: elementwise on an array, an error on a list. An
      infinite quotient is not modelled\<close>
  "truediv v fs =
     (case v of
        PArray xs \<Rightarrow> (if fs = 0 \<or> \<not> finite_quotients xs fs then Inl Unmodelled
                      else Inr (PArray (map (\<lambda>x. fl (x / fs)) xs)))
      | PInt i \<Rightarrow> (if fs = 0 then Inl ZeroDivisionError
                   else if 2 ^ 53 \<le> \<bar>i\<bar> \<or> \<not> finite_quotients [of_int i] fs then Inl Unmodelled
                   else Inr (PFloat (fl (of_int i / fs))))
      | PFloat x \<Rightarrow> (if fs = 0 then Inl ZeroDivisionError
                     else if \<not> finite_quotients [x] fs then Inl Unmodelled
                     else Inr (PFloat (fl (x / fs))))
      | _ \<Rightarrow> Inl TypeError)"

definition int64 :: "int \<Rightarrow> bool" where
  "int64 i = (- (2 ^ 63) \<le> i \<and> i < 2 ^ 63)"

fun float64s :: "pyval list \<Rightarrow> real list option" where
  \<comment> \<open>the elements of a list of numbers as the operands of a binary64 division\<close>
  "float64s [] = Some []"
| "float64s (v # vs) =
     (case v of
        PInt i \<Rightarrow> (if int64 i then map_option ((#) (fl (of_int i))) (float64s vs) else None)
      | PFloat x \<Rightarrow> map_option ((#) x) (float64s vs)
      | _ \<Rightarrow> None)"

definition np_asarray :: "pyval \<Rightarrow> pyval result" where
  \<comment> \<open>\<^verbatim>\<open>np.asarray(v)\<close>, which is only ever divided by the sample rate: an array of
      64-bit integers is held as the array of binary64 numbers the division makes
      of it\<close>
  "np_asarray v =
     (case v of
        PInt i \<Rightarrow> (if int64 i then Inr (PFloat (fl (of_int i))) else Inl Unmodelled)
      | PFloat x \<Rightarrow> Inr (PFloat x)
      | PArray xs \<Rightarrow> Inr (PArray xs)
      | PList vs \<Rightarrow> (case float64s vs of Some xs \<Rightarrow> Inr (PArray xs) | None \<Rightarrow> Inl Unmodelled)
      | _ \<Rightarrow> Inl Unmodelled)"

definition float_arg :: "pyval \<Rightarrow> real result" where
  \<comment> \<open>the operand of \<^verbatim>\<open>'%.2f' % v\<close>\<close>
  "float_arg v =
     (case v of PInt i \<Rightarrow> int_to_float i | PFloat x \<Rightarrow> Inr x
      | PArray xs \<Rightarrow> (if length xs = 1 then Inl Unmodelled else Inl TypeError)
      | _ \<Rightarrow> Inl TypeError)"

fun draw_segments :: "pyval list \<Rightarrow> figure \<Rightarrow> py_error option \<times> figure" where
  \<comment> \<open>the loop over the rejected segments: it stops at the first error, and the bands
      drawn before it stay on the axes\<close>
  "draw_segments [] fig = (None, fig)"
| "draw_segments (segment # rest) fig =
     (case and_then (subscript segment 0) (\<lambda>a.
           and_then (subscript segment 1) (\<lambda>b. axvspan a b fig)) of
        Inl e \<Rightarrow> (Some e, fig)
      | Inr fig' \<Rightarrow> draw_segments rest fig')"

definition iter_items :: "pyval \<Rightarrow> pyval list result" where
  \<comment> \<open>the elements a \<^verbatim>\<open>for\<close> loop visits; iterating a dictionary yields its keys,
      which are strings and not values of the model\<close>
  "iter_items v =
     (case v of
        PList xs \<Rightarrow> Inr xs
      | PArray xs \<Rightarrow> Inr (map PFloat xs)
      | PDict kvs \<Rightarrow> (if kvs = [] then Inr [] else Inl Unmodelled)
      | _ \<Rightarrow> Inl TypeError)"

definition rejected_segments_block :: "pydict \<Rightarrow> figure \<Rightarrow> py_error option \<times> figure" where
  \<comment> \<open>the body of the \<^verbatim>\<open>try\<close>: the error it ends with, if any, and the axes as they are then\<close>
  "rejected_segments_block working_data fig =
     (case and_then (getitem working_data ''rejected_segments'') py_len of
        Inl e \<Rightarrow> (Some e, fig)
      | Inr n \<Rightarrow>
          if 1 \<le> n then
            (case and_then (getitem working_data ''rejected_segments'') iter_items of
               Inl e \<Rightarrow> (Some e, fig)
             | Inr segments \<Rightarrow> draw_segments segments fig)
          else (None, fig))"

definition try_rejected_segments :: "pydict \<Rightarrow> figure \<Rightarrow> figure result" where
  \<comment> \<open>\<^verbatim>\<open>try: ... except: pass\<close>. Every exception is swallowed; only where the model does
      not say what the libraries do, the result says so\<close>
  "try_rejected_segments working_data fig =
     (case rejected_segments_block working_data fig of
        (Some Unmodelled, _) \<Rightarrow> Inl Unmodelled
      | (_, fig') \<Rightarrow> Inr fig')"

definition signal_axes ::
  "pydict \<Rightarrow> measures \<Rightarrow> (real \<times> real) option \<Rightarrow> string \<Rightarrow> bool \<Rightarrow> figure result"
where
  \<comment> \<open>lines 77 to 99 of \<^verbatim>\<open>plotter\<close>: the axes as they are when the \<^verbatim>\<open>try\<close> is reached\<close>
  "signal_axes working_data measure_dict figsize title moving_average =
     and_then (getitem working_data ''sample_rate'') (\<lambda>fs_value.
     and_then (getitem working_data ''hr'') (\<lambda>hr.
     and_then (py_len hr) (\<lambda>n.
     and_then (divisor fs_value) (\<lambda>fs.
     and_then (time_axis n fs) (\<lambda>plotx.
     and_then (getitem working_data ''peaklist'') (\<lambda>peaklist.
     and_then (getitem working_data ''ybeat'') (\<lambda>ybeat.
     and_then (getitem working_data ''removed_beats'') (\<lambda>rejectedpeaks.
     and_then (getitem working_data ''removed_beats_y'') (\<lambda>rejectedpeaks_y.
     let fig0 = (subplots figsize)\<lparr>fig_title := title\<rparr> in
     and_then (as_array hr) (\<lambda>hr_y.
     and_then (ax_plot plotx hr_y ''heart rate signal'' fig0) (\<lambda>fig1.
     let fig2 = fig1\<lparr>fig_xlabel := ''Time (s)''\<rparr> in
     and_then (if moving_average
               then and_then (getitem working_data ''rolling_mean'') (\<lambda>rolling_mean.
                    and_then (as_array rolling_mean) (\<lambda>rm. ax_plot plotx rm [] fig2))
               else Inr fig2) (\<lambda>fig3.
     and_then (np_asarray peaklist) (\<lambda>peak_array.
     and_then (truediv peak_array fs) (\<lambda>peak_x.
     and_then (measure_item measure_dict ''bpm'') (\<lambda>bpm.
     and_then (float_arg bpm) (\<lambda>bpm_value.
     and_then (as_array peak_x) (\<lambda>xs.
     and_then (as_array ybeat) (\<lambda>ys.
     and_then (ax_scatter xs ys (''BPM:'' @ fmt_f 2 bpm_value) fig3) (\<lambda>fig4.
     and_then (truediv rejectedpeaks fs) (\<lambda>rejected_x.
     and_then (as_array rejected_x) (\<lambda>rxs.
     and_then (as_array rejectedpeaks_y) (\<lambda>rys.
     ax_scatter rxs rys ''rejected peaks'' fig4))))))))))))))))))))))"

definition plotter ::
  "pydict \<Rightarrow> measures \<Rightarrow> bool \<Rightarrow> (real \<times> real) option \<Rightarrow> string \<Rightarrow> bool \<Rightarrow> plot_result result"
where
  "plotter working_data measure_dict show figsize title moving_average =
     and_then (signal_axes working_data measure_dict figsize title moving_average) (\<lambda>fig5.
     and_then (try_rejected_segments working_data fig5) (\<lambda>fig6.
     Inr (finish show fig6)))"

section \<open>Segment batch driver\<close>

record filesystem =
  fs_dirs :: "string list"
  fs_files :: "string list"

definition isdir :: "string \<Rightarrow> filesystem \<Rightarrow> bool" where
  "isdir p fsys = (p \<in> set (fs_dirs fsys))"

definition makedirs :: "string \<Rightarrow> filesystem \<Rightarrow> filesystem" where
  \<comment> \<open>\<^verbatim>\<open>os.makedirs(p)\<close> where it succeeds. A file system on which it fails (a regular
      file of that name, a missing permission) is outside the model\<close>
  "makedirs p fsys = fsys\<lparr>fs_dirs := fs_dirs fsys @ [p]\<rparr>"

definition savefig :: "string \<Rightarrow> filesystem \<Rightarrow> filesystem" where
  "savefig name fsys = fsys\<lparr>fs_files := fs_files fsys @ [name]\<rparr>"

definition endswith :: "string \<Rightarrow> char \<Rightarrow> bool" where
  "endswith s c = (s \<noteq> [] \<and> last s = c)"

function py_range :: "int \<Rightarrow> int \<Rightarrow> int \<Rightarrow> int list" where
  \<comment> \<open>\<^verbatim>\<open>range(start, end, step)\<close> for a positive step, the only one the driver lets through\<close>
  "py_range i e s = (if 0 < s \<and> i < e then i # py_range (i + s) e s else [])"
  by pat_completeness auto
termination
  by (relation "measure (\<lambda>(i, e, s). nat (e - i))") auto

declare py_range.simps [simp del]

definition segment_item :: "pyval result \<Rightarrow> int \<Rightarrow> pyval result" where
  \<comment> \<open>\<^verbatim>\<open>d[key][i]\<close>\<close>
  "segment_item field i = and_then field (\<lambda>v. subscript v i)"

definition segment_view :: "pydict \<Rightarrow> measures \<Rightarrow> int \<Rightarrow> (pydict \<times> measures) result" where
  \<comment> \<open>the two dictionaries \<^verbatim>\<open>wd_segment\<close> and \<^verbatim>\<open>m_segment\<close> built for segment \<open>i\<close>\<close>
  "segment_view working_data measure_dict i =
     and_then (segment_item (getitem working_data ''peaklist'') i) (\<lambda>peaklist.
     and_then (segment_item (getitem working_data ''ybeat'') i) (\<lambda>ybeat.
     and_then (segment_item (getitem working_data ''removed_beats'') i) (\<lambda>removed_beats.
     and_then (segment_item (getitem working_data ''removed_beats_y'') i) (\<lambda>removed_beats_y.
     and_then (segment_item (getitem working_data ''hr'') i) (\<lambda>hr.
     and_then (segment_item (getitem working_data ''rolling_mean'') i) (\<lambda>rolling_mean.
     and_then (segment_item (measure_item measure_dict ''bpm'') i) (\<lambda>bpm.
     let wd_segment = [''peaklist'' \<mapsto> peaklist, ''ybeat'' \<mapsto> ybeat,
                       ''removed_beats'' \<mapsto> removed_beats,
                       ''removed_beats_y'' \<mapsto> removed_beats_y,
                       ''hr'' \<mapsto> hr, ''rolling_mean'' \<mapsto> rolling_mean];
         m_segment = [(''bpm'', bpm)]
     in case segment_item (getitem working_data ''rejected_segments'') i of
          Inl _ \<Rightarrow> Inr (wd_segment, m_segment)
        | Inr rejected \<Rightarrow> Inr (wd_segment(''rejected_segments'' \<mapsto> rejected), m_segment))))))))"

text \<open>
  The loop of the driver. The plotter is called with its defaults but \<^verbatim>\<open>show=False\<close>;
  the title and the figure size given to the driver do not reach it. The extra figure
  opened by \<^verbatim>\<open>plt.figure\<close> and the release of the figure after saving leave no trace
  in the files written and are not modelled; saving is taken to succeed.
\<close>

fun segment_loop ::
  "pydict \<Rightarrow> measures \<Rightarrow> string \<Rightarrow> int list \<Rightarrow> int \<Rightarrow> filesystem \<Rightarrow> unit result \<times> filesystem"
where
  "segment_loop working_data measure_dict path [] filenum fsys = (Inr (), fsys)"
| "segment_loop working_data measure_dict path (i # rest) filenum fsys =
     (case segment_view working_data measure_dict i of
        Inl e \<Rightarrow> (Inl e, fsys)
      | Inr (wd_segment, m_segment) \<Rightarrow>
          (case plotter wd_segment m_segment False None
                  ''Heart Rate Signal Peak Detection'' False of
             Inl e \<Rightarrow> (Inl e, fsys)
           | Inr p \<Rightarrow>
               segment_loop working_data measure_dict path rest (filenum + 1)
                 (savefig (path @ str_int filenum @ ''.png'') fsys)))"

definition normalize_path :: "string \<Rightarrow> filesystem \<Rightarrow> string \<times> filesystem" where
  \<comment> \<open>lines 172 to 177: the directory is created inside the branch that appends the slash\<close>
  "normalize_path path fsys =
     (if \<not> (endswith path (CHR ''/'') \<or> endswith path (CHR 0x5C)) \<and> 0 < length path
      then let path' = path @ ''/''
           in (path', if \<not> isdir path' fsys then makedirs path' fsys else fsys)
      else (path, fsys))"

definition checked_end :: "int option \<Rightarrow> nat \<Rightarrow> int result" where
  \<comment> \<open>lines 166 to 170: the default, and the bound on an explicit \<^verbatim>\<open>end\<close>\<close>
  "checked_end end n =
     (case end of
        None \<Rightarrow> Inr (int n)
      | Some e \<Rightarrow> if e \<le> int n then Inr e else Inl AssertionError)"

text \<open>
  The two \<^verbatim>\<open>assert\<close> statements are taken as enabled. The first compares
  \<^verbatim>\<open>0 < step < len(working_data['hr'])\<close>: the length is only read when \<^verbatim>\<open>0 < step\<close>.
\<close>

definition segment_plotter ::
  "pydict \<Rightarrow> measures \<Rightarrow> string \<Rightarrow> (real \<times> real) option \<Rightarrow> string \<Rightarrow> int \<Rightarrow> int option \<Rightarrow> int
     \<Rightarrow> filesystem \<Rightarrow> unit result \<times> filesystem"
where
  "segment_plotter working_data measure_dict title figsize path start end step fsys =
     (if \<not> 0 < step then (Inl AssertionError, fsys)
      else
        (case and_then (getitem working_data ''hr'') py_len of
           Inl e \<Rightarrow> (Inl e, fsys)
         | Inr n \<Rightarrow>
             (if \<not> step < int n then (Inl AssertionError, fsys)
              else
                (case checked_end end n of
                   Inl e \<Rightarrow> (Inl e, fsys)
                 | Inr end' \<Rightarrow>
                     (let (path', fsys') = normalize_path path fsys
                      in segment_loop working_data measure_dict path'
                           (py_range start end' step) 0 fsys')))))"

section \<open>Poincare plotter\<close>

definition np_mean :: "real list \<Rightarrow> real" where
  "np_mean xs = sum_list xs / real (length xs)"

definition np_min2 :: "real list \<Rightarrow> real list \<Rightarrow> real result" where
  \<comment> \<open>\<^verbatim>\<open>np.min([xs, ys])\<close>: a reduction over no element has no value\<close>
  "np_min2 xs ys = (if xs @ ys = [] then Inl ValueError else Inr (Min (set (xs @ ys))))"

definition np_max2 :: "real list \<Rightarrow> real list \<Rightarrow> real result" where
  "np_max2 xs ys = (if xs @ ys = [] then Inl ValueError else Inr (Max (set (xs @ ys))))"

definition np_linspace :: "real \<Rightarrow> real \<Rightarrow> real list" where
  \<comment> \<open>\<^verbatim>\<open>np.linspace(a, b)\<close>: 50 evenly spaced points\<close>
  "np_linspace a b = map (\<lambda>i. a + real i * ((b - a) / 49)) [0..<50]"

definition scalar_arg :: "pyval \<Rightarrow> real result" where
  \<comment> \<open>\<^verbatim>\<open>sd1\<close> and \<^verbatim>\<open>sd2\<close> as operands of the rotation arithmetic\<close>
  "scalar_arg v =
     (case v of PInt i \<Rightarrow> Inr (of_int i) | PFloat x \<Rightarrow> Inr x
      | PNone \<Rightarrow> Inl TypeError | PDict _ \<Rightarrow> Inl TypeError
      | _ \<Rightarrow> Inl Unmodelled)"

definition plot_poincare ::
  "pydict \<Rightarrow> measures \<Rightarrow> bool \<Rightarrow> (real \<times> real) option \<Rightarrow> string \<Rightarrow> plot_result result"
where
  "plot_poincare working_data measure_dict show figsize title =
     and_then (getitem working_data ''poincare'') (\<lambda>poincare.
     and_then (subscript_key poincare ''x_plus'') (\<lambda>x_plus_value.
     and_then (subscript_key poincare ''x_minus'') (\<lambda>x_minus_value.
     and_then (measure_item measure_dict ''sd1'') (\<lambda>sd1_value.
     and_then (measure_item measure_dict ''sd2'') (\<lambda>sd2_value.
     let fig0 = subplots figsize in
     and_then (as_array x_plus_value) (\<lambda>x_plus.
     and_then (as_array x_minus_value) (\<lambda>x_minus.
     and_then (ax_scatter x_plus x_minus ''peak-peak intervals'' fig0) (\<lambda>fig1.
     and_then (np_min2 x_plus x_minus) (\<lambda>mins.
     and_then (np_max2 x_plus x_minus) (\<lambda>maxs.
     let identity_line = np_linspace mins maxs in
     and_then (ax_plot identity_line identity_line ''identity line'' fig1) (\<lambda>fig2.
     and_then (scalar_arg sd1_value) (\<lambda>sd1.
     and_then (scalar_arg sd2_value) (\<lambda>sd2.
     let (sd1_xrot, sd1_yrot) = rotate_vec 0 sd1 45;
         (sd2_xrot, sd2_yrot) = rotate_vec 0 sd2 45 in
     and_then (ax_plot [np_mean x_plus, np_mean x_plus + sd1_xrot]
                       [np_mean x_minus, np_mean x_minus + sd1_yrot] ''SD1'' fig2) (\<lambda>fig3.
     and_then (ax_plot [np_mean x_plus, np_mean x_plus - sd2_xrot]
                       [np_mean x_minus, np_mean x_minus + sd2_yrot] ''SD2'' fig3) (\<lambda>fig4.
     let xmn = np_mean x_plus;
         ymn = np_mean x_minus;
         el = EllipsePatch (xmn, ymn) (sd2 * 2) (sd1 * 2) 45 False;
         fig5 = add_artist el fig4;
         fig6 = fig5\<lparr>fig_xlabel := ''RRi_n (ms)'', fig_ylabel := ''RRi_n+1 (ms)'',
                     fig_title := title\<rparr>
     in Inr (finish show fig6))))))))))))))))"

section \<open>Report formatter\<close>

definition upper_char :: "char \<Rightarrow> char" where
  "upper_char c =
     (case map_of (zip ''abcdefghijklmnopqrstuvwxyz'' ''ABCDEFGHIJKLMNOPQRSTUVWXYZ'') c of
        Some u \<Rightarrow> u | None \<Rightarrow> c)"

definition label_formatter :: "string \<Rightarrow> string" where
  "label_formatter m =
     (if m = ''ibi'' then ''IBI (ms)''
      else if m = ''sdnn'' then ''SDNN (ms)''
      else if m = ''sdsd'' then ''SDSD (ms)''
      else if m = ''rmssd'' then ''RMSSD (ms)''
      else if m = ''pnn20'' then ''pNN20''
      else if m = ''pnn50'' then ''pNN50''
      else if m = ''hr_mad'' then ''HR_MAD (ms)''
      else if m = ''sd1'' then ''SD1 (ms)''
      else if m = ''sd2'' then ''SD2 (ms)''
      else if m = ''s'' then ''S (ms^2)''
      else if m = ''vlf'' then ''VLF (ms^2)''
      else if m = ''lf'' then ''LF (ms^2)''
      else if m = ''hf'' then ''HF (ms^2)''
      else if m = ''p_total'' then ''P_total (ms^2)''
      else if m = ''vlf_perc'' then ''VLF %''
      else if m = ''lf_perc'' then ''LF %''
      else if m = ''hf_perc'' then ''HF %''
      else if m = ''lf_nu'' then ''LF (nu)''
      else if m = ''hf_nu'' then ''HF (nu)''
      else map upper_char m)"

datatype report_output = Stdout string | FileWrite string string

fun table_lines :: "string \<Rightarrow> measures \<Rightarrow> string \<Rightarrow> string result" where
  \<comment> \<open>\<^verbatim>\<open>for k, v in measures.items(): out_str += str_fmt.format(label_formatter(k), v)\<close>\<close>
  "table_lines str_fmt [] out_str = Inr out_str"
| "table_lines str_fmt ((k, v) # rest) out_str =
     and_then (py_format str_fmt [FStr (label_formatter k), FVal v]) (\<lambda>line.
     table_lines str_fmt rest (out_str @ line))"

definition report :: "pydict \<Rightarrow> measures \<Rightarrow> string option \<Rightarrow> bool \<Rightarrow> report_output result" where
  "report working_data measure_dict outfile csvfile =
     (let header_fmt = (if csvfile then ''{},{}\<newline>'' else ''{:<14} {:<15}\<newline>'') in
      and_then (py_format header_fmt [FStr ''Measure'', FStr ''Value'']) (\<lambda>h1.
      and_then (py_format header_fmt [FStr ''-----------'', FStr ''---------'']) (\<lambda>h2.
      let table_fmt = (if csvfile then ''{},{:#.9g}\<newline>'' else ''{:<14} {:< #15.3g}\<newline>'') in
      and_then (table_lines table_fmt measure_dict ('''' @ h1 @ h2)) (\<lambda>out1.
      let out2 = (if csvfile then out1 else out1 @ ''\<newline>'');
          str_fmt = (if csvfile then ''{},{:#0.3g}\<newline>'' else ''{:<14} {:< #15.3g}\<newline>'') in
      and_then (getitem working_data ''best'') (\<lambda>best_ma.
      and_then (py_format str_fmt [FStr ''Best MA (%)'', FVal best_ma]) (\<lambda>l1.
      and_then (getitem working_data ''removed_beats'') (\<lambda>removed_beats.
      and_then (py_len removed_beats) (\<lambda>n_rmbeats.
      and_then (getitem working_data ''RR_list'') (\<lambda>rr_list.
      and_then (py_len rr_list) (\<lambda>n_rr.
      and_then (int_truediv (100 * int n_rmbeats) (int n_rr)) (\<lambda>pc_rmbeats.
      and_then (py_format str_fmt [FStr ''Excl. peaks'', FVal (PInt (int n_rmbeats))]) (\<lambda>l2.
      and_then (py_format str_fmt [FStr ''Excl. %'', FVal (PFloat pc_rmbeats)]) (\<lambda>l3.
      let out_str = out2 @ l1 @ l2 @ l3
      in Inr (case outfile of
                None \<Rightarrow> Stdout (out_str @ ''\<newline>'')
              | Some name \<Rightarrow> FileWrite name out_str))))))))))))))"

section \<open>The layout of the report, stated without format strings\<close>

text \<open>
  The report as a reader sees it, for comparison with \<open>report\<close>: a value is rendered
  by \<open>fmt_g\<close> in alternate form at a given number of significant digits, preceded by
  its sign column, and a row is a label and a value. The values are binary64
  numbers: an integer measure is shown as the nearest one, the percentage of
  excluded peaks as the one nearest the quotient.
\<close>

definition formattable :: "pyval \<Rightarrow> bool" where
  \<comment> \<open>a number that has a \<^verbatim>\<open>float\<close>: every \<^verbatim>\<open>float\<close>, and an \<^verbatim>\<open>int\<close> within the range\<close>
  "formattable v =
     (case v of PInt i \<Rightarrow> \<bar>fl (of_int i)\<bar> \<le> max_double | PFloat _ \<Rightarrow> True | _ \<Rightarrow> False)"

definition float_value :: "pyval \<Rightarrow> real" where
  \<comment> \<open>the \<^verbatim>\<open>float\<close> of a number: an \<^verbatim>\<open>int\<close> is rounded to the nearest one\<close>
  "float_value v = (case v of PInt i \<Rightarrow> fl (of_int i) | PFloat x \<Rightarrow> x | _ \<Rightarrow> 0)"

definition ljust :: "nat \<Rightarrow> string \<Rightarrow> string" where
  "ljust w s = s @ replicate (w - length s) (CHR '' '')"

definition table_value :: "real \<Rightarrow> string" where
  \<comment> \<open>3 significant digits; a space in the sign column unless the value is negative\<close>
  "table_value x = ljust 15 ((if x < 0 then ''-'' else '' '') @ fmt_g 3 True \<bar>x\<bar>)"

definition csv_value :: "nat \<Rightarrow> real \<Rightarrow> string" where
  \<comment> \<open>\<open>p\<close> significant digits; no sign character unless the value is negative\<close>
  "csv_value p x = (if x < 0 then ''-'' else '''') @ fmt_g p True \<bar>x\<bar>"

definition row_layout :: "bool \<Rightarrow> nat \<Rightarrow> string \<Rightarrow> real \<Rightarrow> string" where
  \<comment> \<open>\<open>p\<close> is the precision of a CSV row; a table row always has 3 digits\<close>
  "row_layout csvfile p label x =
     (if csvfile then label @ '','' @ csv_value p x @ ''\<newline>''
      else ljust 14 label @ '' '' @ table_value x @ ''\<newline>'')"

definition header_layout :: "bool \<Rightarrow> string" where
  "header_layout csvfile =
     (if csvfile then ''Measure,Value\<newline>-----------,---------\<newline>''
      else ljust 14 ''Measure'' @ '' '' @ ljust 15 ''Value'' @ ''\<newline>''
           @ ljust 14 ''-----------'' @ '' '' @ ljust 15 ''---------'' @ ''\<newline>'')"

definition report_layout :: "bool \<Rightarrow> measures \<Rightarrow> real \<Rightarrow> nat \<Rightarrow> nat \<Rightarrow> string" where
  "report_layout csvfile measure_dict best k n =
     header_layout csvfile
     @ concat (map (\<lambda>(key, v). row_layout csvfile 9 (label_formatter key) (float_value v))
                   measure_dict)
     @ (if csvfile then '''' else ''\<newline>'')
     @ row_layout csvfile 3 ''Best MA (%)'' best
     @ row_layout csvfile 3 ''Excl. peaks'' (fl (real k))
     @ row_layout csvfile 3 ''Excl. %'' (fl (real (100 * k) / real n))"

definition emit :: "string option \<Rightarrow> string \<Rightarrow> report_output" where
  \<comment> \<open>\<^verbatim>\<open>print\<close> ends its output with a newline, the file holds the string as it is\<close>
  "emit outfile text =
     (case outfile of None \<Rightarrow> Stdout (text @ ''\<newline>'') | Some name \<Rightarrow> FileWrite name text)"

section \<open>Rejected segments, as the plotter reads them\<close>







section \<open>Example records\<close>

definition example_segments :: pydict where
  \<comment> \<open>a working-data record of two segments, as segment-wise processing leaves it\<close>
  "example_segments =
     [''hr'' \<mapsto> PList [PArray [1, 2], PArray [3, 4]],
      ''peaklist'' \<mapsto> PList [PList [PInt 0], PList [PInt 1]],
      ''ybeat'' \<mapsto> PList [PArray [1], PArray [4]],
      ''removed_beats'' \<mapsto> PList [PArray [], PArray []],
      ''removed_beats_y'' \<mapsto> PList [PArray [], PArray []],
      ''rolling_mean'' \<mapsto> PList [PArray [1, 1], PArray [3, 3]],
      ''sample_rate'' \<mapsto> PFloat 100]"

definition example_segment_measures :: measures where
  "example_segment_measures = [(''bpm'', PList [PFloat 70, PFloat 72])]"

definition empty_fs :: filesystem where
  "empty_fs = \<lparr>fs_dirs = [], fs_files = []\<rparr>"

definition example_report_data :: pydict where
  "example_report_data =
     [''best'' \<mapsto> PFloat 30, ''removed_beats'' \<mapsto> PList [PInt 1, PInt 2],
      ''RR_list'' \<mapsto> PList (replicate 50 (PInt 800))]"

definition example_report_measures :: measures where
  "example_report_measures = [(''bpm'', PFloat (fl 72.345)), (''sdnn'', PFloat (fl 45.1))]"

definition example_signal :: pydict where
  \<comment> \<open>three samples at 100 Hz, one accepted and one rejected peak\<close>
  "example_signal =
     [''sample_rate'' \<mapsto> PFloat 100, ''hr'' \<mapsto> PArray [1, 2, 3],
      ''peaklist'' \<mapsto> PList [PInt 1], ''ybeat'' \<mapsto> PArray [2],
      ''removed_beats'' \<mapsto> PArray [2], ''removed_beats_y'' \<mapsto> PArray [3]]"

definition example_signal_measures :: measures where
  "example_signal_measures = [(''bpm'', PFloat (fl 72.345))]"


definition example_poincare :: pydict where
  "example_poincare =
     [''poincare'' \<mapsto> PDict [(''x_plus'', PList [PInt 800, PInt 820]),
                                (''x_minus'', PList [PInt 810, PInt 815])]]"

definition example_poincare_measures :: measures where
  "example_poincare_measures = [(''sd1'', PInt 10), (''sd2'', PInt 20)]"

definition empty_poincare :: pydict where
  "empty_poincare = [''poincare'' \<mapsto> PDict [(''x_plus'', PList []), (''x_minus'', PList [])]]"

section \<open>Properties of the geometry transform\<close>

text \<open>
  C7. For every real pair \<open>(x, y)\<close> and every angle in degrees, \<open>rotate_vec\<close> returns
  \<open>x' = x cos \<theta> - y sin \<theta>\<close> and \<open>y' = x sin \<theta> + y cos \<theta>\<close>, with \<open>\<theta>\<close> the angle in
  radians. This is the rotation counter-clockwise about the origin: the point at
  distance \<open>r\<close> and polar angle \<open>\<phi>\<close> is sent to the point at distance \<open>r\<close> and polar
  angle \<open>\<phi> + \<theta>\<close>. The function is total: it has no error result and no state.
\<close>

theorem rotate_vec_counter_clockwise:
  "rotate_vec x y angle =
     (x * cos (angle * pi / 180) - y * sin (angle * pi / 180),
      x * sin (angle * pi / 180) + y * cos (angle * pi / 180))
   \<and> rotate_vec (r * cos phi) (r * sin phi) angle =
     (r * cos (phi + angle * pi / 180), r * sin (phi + angle * pi / 180))"
proof
  show "rotate_vec x y angle =
     (x * cos (angle * pi / 180) - y * sin (angle * pi / 180),
      x * sin (angle * pi / 180) + y * cos (angle * pi / 180))"
    by (simp add: rotate_vec_def radians_def Let_def)
next
  have c: "r * cos (phi + angle * pi / 180) =
      r * cos phi * cos (angle * pi / 180) - r * sin phi * sin (angle * pi / 180)"
    by (simp add: cos_add algebra_simps)
  have s: "r * sin (phi + angle * pi / 180) =
      r * cos phi * sin (angle * pi / 180) + r * sin phi * cos (angle * pi / 180)"
    by (simp add: sin_add algebra_simps)
  show "rotate_vec (r * cos phi) (r * sin phi) angle =
     (r * cos (phi + angle * pi / 180), r * sin (phi + angle * pi / 180))"
    unfolding c s by (simp add: rotate_vec_def radians_def Let_def)
qed

section \<open>Basic facts\<close>

lemma and_then_simps [simp]:
  "and_then (Inl e) f = Inl e" "and_then (Inr x) f = f x"
  by (simp_all add: and_then_def)

lemma and_then_eq_Inr: "and_then r f = Inr y \<longleftrightarrow> (\<exists>x. r = Inr x \<and> f x = Inr y)"
  by (cases r) simp_all

lemma and_then_eq_Inl: "and_then r f = Inl e \<longleftrightarrow> r = Inl e \<or> (\<exists>x. r = Inr x \<and> f x = Inl e)"
  by (cases r) simp_all

lemma segment_view_no_sample_rate:
  assumes "segment_view working_data measure_dict i = Inr (wd_segment, m_segment)"
  shows "wd_segment ''sample_rate'' = None"
proof (cases "segment_item (getitem working_data ''rejected_segments'') i")
  case (Inl e)
  with assms show ?thesis
    by (auto simp: segment_view_def and_then_eq_Inr Let_def)
next
  case (Inr r)
  with assms show ?thesis
    by (auto simp: segment_view_def and_then_eq_Inr Let_def)
qed

lemma plotter_without_sample_rate:
  "working_data ''sample_rate'' = None \<Longrightarrow>
   plotter working_data measure_dict show figsize title moving_average = Inl (KeyError ''sample_rate'')"
  by (simp add: plotter_def signal_axes_def getitem_def)

lemma segment_loop_Cons:
  "segment_loop working_data measure_dict path (i # rest) filenum fsys =
     (case segment_view working_data measure_dict i of
        Inl e \<Rightarrow> (Inl e, fsys)
      | Inr _ \<Rightarrow> (Inl (KeyError ''sample_rate''), fsys))"
  by (auto split: sum.splits
      simp: plotter_without_sample_rate [OF segment_view_no_sample_rate])

lemma segment_loop_state:
  "snd (segment_loop working_data measure_dict path indices filenum fsys) = fsys"
  by (cases indices) (auto simp: segment_loop_Cons simp del: segment_loop.simps(2) split: sum.splits)

lemma subscript_not_assert: "subscript v i \<noteq> Inl AssertionError"
  by (auto simp: subscript_def list_index_def and_then_eq_Inl split: pyval.splits)

lemma segment_item_not_assert:
  "segment_item (getitem d k) i \<noteq> Inl AssertionError"
  "segment_item (measure_item ms k) i \<noteq> Inl AssertionError"
  by (auto simp: segment_item_def and_then_eq_Inl subscript_not_assert getitem_def measure_item_def
      split: option.splits)

lemma segment_view_not_assert: "segment_view working_data measure_dict i \<noteq> Inl AssertionError"
  by (auto simp: segment_view_def and_then_eq_Inl segment_item_not_assert Let_def split: sum.splits)

lemma segment_loop_not_assert:
  "fst (segment_loop working_data measure_dict path indices filenum fsys) \<noteq> Inl AssertionError"
  using segment_view_not_assert [of working_data measure_dict]
  by (cases indices) (auto simp: segment_loop_Cons simp del: segment_loop.simps(2) split: sum.splits)

lemma py_range_first: "0 < s \<Longrightarrow> i < e \<Longrightarrow> py_range i e s = i # py_range (i + s) e s"
  by (subst py_range.simps) simp

lemma py_range_empty: "e \<le> i \<Longrightarrow> py_range i e s = []"
  by (subst py_range.simps) simp

section \<open>Rounding to binary64\<close>

lemma powr2_Suc: "(2::real) powr (of_int (k + 1)) = 2 * 2 powr (of_int k)"
  by (simp add: powr_add)

lemma scale2_powr: "scale2 x k = x * 2 powr (of_int k)"
  by (simp add: scale2_def powr_real_of_int field_simps)

lemma bin_exp_up_bounds:
  "1 \<le> x \<Longrightarrow> 2 powr (of_int (bin_exp_up x e - e)) \<le> x
     \<and> x < 2 powr (of_int (bin_exp_up x e - e + 1))"
proof (induction x e rule: bin_exp_up.induct)
  case (1 x e)
  show ?case
  proof (cases "2 \<le> x")
    case True
    then have r: "bin_exp_up x e = bin_exp_up (x / 2) (e + 1)"
      by (subst bin_exp_up.simps) simp
    from True have "1 \<le> x / 2" by simp
    from "1.IH" [OF True this]
    have lo: "2 powr (of_int (bin_exp_up x e - e - 1)) \<le> x / 2"
      and hi: "x / 2 < 2 powr (of_int (bin_exp_up x e - e - 1 + 1))"
      by (simp_all add: r algebra_simps)
    have "(2::real) powr (of_int (bin_exp_up x e - e)) = 2 * 2 powr (of_int (bin_exp_up x e - e - 1))"
      using powr2_Suc [of "bin_exp_up x e - e - 1"] by (simp del: of_int_diff of_int_add)
    moreover have "(2::real) powr (of_int (bin_exp_up x e - e + 1))
        = 2 * 2 powr (of_int (bin_exp_up x e - e - 1 + 1))"
      using powr2_Suc [of "bin_exp_up x e - e"] by (simp del: of_int_diff of_int_add)
    ultimately show ?thesis using lo hi by (simp del: of_int_diff of_int_add)
  next
    case False
    then have "bin_exp_up x e = e"
      by (subst bin_exp_up.simps) simp
    with False 1(2) show ?thesis by simp
  qed
qed

lemma bin_exp_down_bounds:
  "0 < x \<Longrightarrow> x < 2 \<Longrightarrow> 2 powr (of_int (bin_exp_down x e - e)) \<le> x
     \<and> x < 2 powr (of_int (bin_exp_down x e - e + 1))"
proof (induction x e rule: bin_exp_down.induct)
  case (1 x e)
  show ?case
  proof (cases "x < 1")
    case True
    with 1(2) have c: "0 < x \<and> x < 1" by simp
    then have r: "bin_exp_down x e = bin_exp_down (x * 2) (e - 1)"
      by (subst bin_exp_down.simps) simp
    from c have "0 < x * 2" "x * 2 < 2" by simp_all
    from "1.IH" [OF c this]
    have lo: "2 powr (of_int (bin_exp_down x e - e + 1)) \<le> x * 2"
      and hi: "x * 2 < 2 powr (of_int (bin_exp_down x e - e + 1 + 1))"
      by (simp_all add: r algebra_simps)
    have "(2::real) powr (of_int (bin_exp_down x e - e + 1)) = 2 * 2 powr (of_int (bin_exp_down x e - e))"
      by (rule powr2_Suc)
    moreover have "(2::real) powr (of_int (bin_exp_down x e - e + 1 + 1))
        = 2 * 2 powr (of_int (bin_exp_down x e - e + 1))"
      by (rule powr2_Suc)
    ultimately show ?thesis using lo hi by (simp del: of_int_diff of_int_add)
  next
    case False
    then have "bin_exp_down x e = e"
      by (subst bin_exp_down.simps) simp
    with False 1(3) show ?thesis by simp
  qed
qed

lemma bin_exp_bounds:
  assumes "0 < x"
  shows "2 powr (of_int (bin_exp x)) \<le> x" and "x < 2 powr (of_int (bin_exp x + 1))"
proof -
  have "2 powr (of_int (bin_exp x)) \<le> x \<and> x < 2 powr (of_int (bin_exp x + 1))"
  proof (cases "1 \<le> x")
    case True
    with bin_exp_up_bounds [OF True, of 0] show ?thesis by (simp add: bin_exp_def)
  next
    case False
    with assms bin_exp_down_bounds [of x 0] show ?thesis by (simp add: bin_exp_def)
  qed
  then show "2 powr (of_int (bin_exp x)) \<le> x" and "x < 2 powr (of_int (bin_exp x + 1))"
    by simp_all
qed

lemma round_half_even_error: "\<bar>of_int (round_half_even y) - y\<bar> \<le> 1 / 2"
proof -
  have "of_int \<lfloor>y\<rfloor> \<le> y" "y < of_int \<lfloor>y\<rfloor> + 1" by linarith+
  then show ?thesis
    by (auto simp: round_half_even_def Let_def)
qed

lemma fl_error:
  assumes "x \<noteq> 0"
  shows "\<bar>fl x - x\<bar> \<le> 2 powr (of_int (max (bin_exp \<bar>x\<bar>) (- 1022)) - 53)"
proof -
  define e where "e = max (bin_exp \<bar>x\<bar>) (- 1022)"
  define y where "y = x * 2 powr (of_int (52 - e))"
  have f: "fl x = of_int (round_half_even y) * 2 powr (of_int (e - 52))"
    using assms by (simp add: fl_def Let_def scale2_powr e_def y_def)
  have inv: "(2::real) powr (of_int (52 - e)) * 2 powr (of_int (e - 52)) = 1"
    by (simp add: powr_add [symmetric])
  have x: "x = y * 2 powr (of_int (e - 52))"
    using inv by (simp add: y_def algebra_simps)
  have "fl x - x = (of_int (round_half_even y) - y) * 2 powr (of_int (e - 52))"
    by (subst (2) x) (simp add: f algebra_simps)
  then have "\<bar>fl x - x\<bar> = \<bar>of_int (round_half_even y) - y\<bar> * 2 powr (of_int (e - 52))"
    by (simp add: abs_mult)
  also have "\<dots> \<le> (1 / 2) * 2 powr (of_int (e - 52))"
    by (rule mult_right_mono [OF round_half_even_error]) simp
  also have "\<dots> = 2 powr (of_int e - 53)"
  proof -
    have "(2::real) powr (of_int e - 52) = 2 * 2 powr (of_int e - 53)"
      using powr_add [of "2::real" 1 "of_int e - 53"] by simp
    then show ?thesis by simp
  qed
  finally show ?thesis by (simp add: e_def)
qed

lemma fl_relative_error:
  assumes "2 powr (- 1022) \<le> \<bar>x\<bar>"
  shows "\<bar>fl x - x\<bar> \<le> \<bar>x\<bar> / 2 ^ 53"
proof -
  from assms have pos: "0 < \<bar>x\<bar>"
    using powr_gt_zero [of "2::real" "- 1022"] by linarith
  then have nz: "x \<noteq> 0" by auto
  have "(2::real) powr (- 1022) < 2 powr (of_int (bin_exp \<bar>x\<bar> + 1))"
    using assms bin_exp_bounds(2) [OF pos] by linarith
  then have "(- 1022 :: real) < of_int (bin_exp \<bar>x\<bar> + 1)"
    by (simp del: of_int_add)
  then have m: "max (bin_exp \<bar>x\<bar>) (- 1022) = bin_exp \<bar>x\<bar>" by linarith
  have "\<bar>fl x - x\<bar> \<le> 2 powr (of_int (bin_exp \<bar>x\<bar>) - 53)"
    using fl_error [OF nz] by (simp add: m)
  also have "\<dots> = (2::real) powr (of_int (bin_exp \<bar>x\<bar>)) / 2 ^ 53"
    by (simp add: powr_diff powr_realpow [symmetric])
  also have "\<dots> \<le> \<bar>x\<bar> / 2 ^ 53"
    using bin_exp_bounds(1) [OF pos] by (simp add: divide_right_mono)
  finally show ?thesis .
qed

lemma fl_finite:
  assumes "\<bar>x\<bar> \<le> 2 ^ 1000"
  shows "\<bar>fl x\<bar> \<le> max_double"
proof -
  have big: "(2::real) ^ 1001 \<le> max_double"
  proof -
    have "(2::real) ^ 1001 = 2 ^ 30 * 2 ^ 971" by (simp add: power_add [symmetric])
    also have "\<dots> \<le> (2 ^ 53 - 1) * 2 ^ 971"
      by (rule mult_right_mono) simp_all
    finally show ?thesis by (simp only: max_double_def)
  qed
  have small: "(2::real) powr (- 1022) \<le> 1"
    using powr_mono [of "- 1022" 0 "2::real"] by simp
  show ?thesis
  proof (cases "2 powr (- 1022) \<le> \<bar>x\<bar>")
    case True
    have "\<bar>x\<bar> / 2 ^ 53 \<le> \<bar>x\<bar> / 1"
      by (rule divide_left_mono) simp_all
    with fl_relative_error [OF True] have "\<bar>fl x - x\<bar> \<le> \<bar>x\<bar>" by linarith
    then have "\<bar>fl x\<bar> \<le> 2 * \<bar>x\<bar>" by linarith
    with assms big show ?thesis by simp
  next
    case False
    show ?thesis
    proof (cases "x = 0")
      case True
      then show ?thesis by (simp add: fl_def max_double_def)
    next
      case nz: False
      then have pos: "0 < \<bar>x\<bar>" by simp
      from False have lt: "\<bar>x\<bar> < 2 powr (- 1022)" by simp
      have "(2::real) powr (of_int (bin_exp \<bar>x\<bar>)) < 2 powr (- 1022)"
        using bin_exp_bounds(1) [OF pos] lt by linarith
      then have "of_int (bin_exp \<bar>x\<bar>) < (- 1022 :: real)" by simp
      then have m: "max (bin_exp \<bar>x\<bar>) (- 1022) = - 1022" by linarith
      have "\<bar>fl x - x\<bar> \<le> (2::real) powr (- 1075)"
        using fl_error [OF nz] by (simp add: m)
      also have "\<dots> \<le> 1"
        using powr_mono [of "- 1075" 0 "2::real"] by simp
      finally have "\<bar>fl x\<bar> \<le> \<bar>x\<bar> + 1" by linarith
      with lt small have "\<bar>fl x\<bar> \<le> 2" by linarith
      also have "(2::real) \<le> 2 ^ 1001" by simp
      finally show ?thesis using big by linarith
    qed
  qed
qed

section \<open>Properties of the segment batch driver\<close>

text \<open>
  C1. The driver is meant to write one image per visited segment, numbered from 0.
  It builds \<^verbatim>\<open>wd_segment\<close> without the key \<^verbatim>\<open>sample_rate\<close>, which the plotter
  reads first: on a record of two segments with \<^verbatim>\<open>start=0, end=None, step=1\<close> the
  call ends with \<^verbatim>\<open>KeyError('sample_rate')\<close> in the first iteration, after creating
  the output directory, and no file is written.
\<close>

theorem segment_plotter_writes_no_file:
  "segment_plotter example_segments example_segment_measures
     ''Heart Rate Signal Peak Detection'' (Some (6, 6)) ''out'' 0 None 1 empty_fs
   = (Inl (KeyError ''sample_rate''), \<lparr>fs_dirs = [''out/''], fs_files = []\<rparr>)"
  by code_simp

text \<open>
  C2. With \<open>S\<close> the segment count \<^verbatim>\<open>len(working_data['hr'])\<close>: whenever
  \<open>step \<le> 0\<close>, \<open>step \<ge> S\<close> or an explicit \<^verbatim>\<open>end\<close> exceeds \<open>S\<close>, the driver fails with
  the assertion error (the spec's InvalidArgument) and leaves the file system as it
  was: no directory is created and no file written. For \<open>0 < step < S\<close> and
  \<open>end \<le> S\<close> the driver never ends with that error.
\<close>

theorem segment_plotter_argument_checks:
  assumes "working_data ''hr'' = Some hr" and "py_len hr = Inr S"
  shows "(step \<le> 0 \<or> int S \<le> step \<or> (\<exists>e. end = Some e \<and> int S < e) \<longrightarrow>
            segment_plotter working_data measure_dict title figsize path start end step fsys
              = (Inl AssertionError, fsys))
       \<and> (0 < step \<and> step < int S \<and> (\<forall>e. end = Some e \<longrightarrow> e \<le> int S) \<longrightarrow>
            fst (segment_plotter working_data measure_dict title figsize path start end step fsys)
              \<noteq> Inl AssertionError)"
proof (intro conjI impI)
  assume "step \<le> 0 \<or> int S \<le> step \<or> (\<exists>e. end = Some e \<and> int S < e)"
  with assms
  show "segment_plotter working_data measure_dict title figsize path start end step fsys
          = (Inl AssertionError, fsys)"
    by (auto simp: segment_plotter_def getitem_def checked_end_def)
next
  assume ok: "0 < step \<and> step < int S \<and> (\<forall>e. end = Some e \<longrightarrow> e \<le> int S)"
  then have "\<exists>end'. checked_end end S = Inr end'"
    by (cases "end") (auto simp: checked_end_def)
  then obtain end' where "checked_end end S = Inr end'" ..
  with assms ok
  show "fst (segment_plotter working_data measure_dict title figsize path start end step fsys)
          \<noteq> Inl AssertionError"
    by (simp add: segment_plotter_def getitem_def segment_loop_not_assert split: prod.splits)
qed

theorem segment_plotter_argument_checks_witness:
  "segment_plotter example_segments example_segment_measures ''t'' None ''out'' 0 None 2 empty_fs
     = (Inl AssertionError, empty_fs)
   \<and> segment_plotter example_segments example_segment_measures ''t'' None ''out'' 0 (Some 3) 1 empty_fs
     = (Inl AssertionError, empty_fs)
   \<and> fst (segment_plotter example_segments example_segment_measures ''t'' None ''out'' 0 (Some 2) 1
          empty_fs) \<noteq> Inl AssertionError"
proof -
  have hr: "example_segments ''hr'' = Some (PList [PArray [1, 2], PArray [3, 4]])"
    by (simp add: example_segments_def)
  have len: "py_len (PList [PArray [1, 2], PArray [3, 4]]) = Inr 2"
    by (simp add: py_len_def)
  show ?thesis
    using segment_plotter_argument_checks [of example_segments _ 2 2 None example_segment_measures "''t''" None "''out''" 0 empty_fs, OF hr len]
      segment_plotter_argument_checks [of example_segments _ 2 1 "Some 3" example_segment_measures "''t''" None "''out''" 0 empty_fs, OF hr len]
      segment_plotter_argument_checks [of example_segments _ 2 1 "Some 2" example_segment_measures "''t''" None "''out''" 0 empty_fs, OF hr len]
    by simp
qed

lemma fs_files_normalize_path: "fs_files (snd (normalize_path path fsys)) = fs_files fsys"
  by (simp add: normalize_path_def makedirs_def Let_def)

lemma segment_plotter_checked:
  assumes "getitem working_data ''hr'' = Inr hr" and "py_len hr = Inr S"
    and "0 < step" and "step < int S" and "checked_end end S = Inr end'"
  shows "segment_plotter working_data measure_dict title figsize path start end step fsys =
     segment_loop working_data measure_dict (fst (normalize_path path fsys))
       (py_range start end' step) 0 (snd (normalize_path path fsys))"
  using assms by (simp add: segment_plotter_def split: prod.splits)

text \<open>
  C3. A path that is not empty and does not end with a separator gets a slash, and the
  directory is then created if it is missing. The creation sits inside that branch:
  for the path \<^verbatim>\<open>out/\<close>, which does not exist and already ends with a separator,
  the driver leaves the path as it is and creates no directory.
\<close>

theorem segment_plotter_missing_directory:
  "\<not> isdir ''out/'' empty_fs
   \<and> normalize_path ''out/'' empty_fs = (''out/'', empty_fs)
   \<and> snd (segment_plotter example_segments example_segment_measures
          ''Heart Rate Signal Peak Detection'' (Some (6, 6)) ''out/'' 0 None 1 empty_fs) = empty_fs"
  by code_simp

text \<open>
  C9. On a multi-segment record that lacks \<^verbatim>\<open>rolling_mean\<close>, or whose
  \<^verbatim>\<open>rolling_mean\<close> has no entry for the first visited segment, the driver fails with
  a lookup error on the first visited segment, before any file is written: it reads
  \<^verbatim>\<open>rolling_mean[i]\<close> for every visited segment although it calls the plotter with
  the moving-average overlay off. Where \<^verbatim>\<open>rolling_mean\<close> does have that entry the
  first visited segment fails all the same, with the lookup of \<^verbatim>\<open>sample_rate\<close>.
\<close>

theorem segment_plotter_rolling_mean:
  assumes "0 < step"
    and "working_data ''hr'' = Some (PList hr)" and "step < int (length hr)"
    and "end = None \<or> (\<exists>e. end = Some e \<and> e \<le> int (length hr))"
    and "start < (case end of None \<Rightarrow> int (length hr) | Some e \<Rightarrow> e)"
    and "working_data ''peaklist'' = Some (PList peaklist)"
    and "working_data ''ybeat'' = Some (PList ybeat)"
    and "working_data ''removed_beats'' = Some (PList removed_beats)"
    and "working_data ''removed_beats_y'' = Some (PList removed_beats_y)"
    and "0 \<le> start" and "start < int (length hr)" and "start < int (length peaklist)"
    and "start < int (length ybeat)" and "start < int (length removed_beats)"
    and "start < int (length removed_beats_y)"
  shows "(working_data ''rolling_mean'' = None \<longrightarrow>
            segment_plotter working_data measure_dict title figsize path start end step fsys =
              (Inl (KeyError ''rolling_mean''), snd (normalize_path path fsys)))
       \<and> (\<forall>rolling_mean. working_data ''rolling_mean'' = Some (PList rolling_mean)
              \<and> int (length rolling_mean) \<le> start \<longrightarrow>
            segment_plotter working_data measure_dict title figsize path start end step fsys =
              (Inl IndexError, snd (normalize_path path fsys)))
       \<and> (\<forall>rolling_mean bpm. working_data ''rolling_mean'' = Some (PList rolling_mean)
              \<and> start < int (length rolling_mean)
              \<and> map_of measure_dict ''bpm'' = Some (PList bpm) \<and> start < int (length bpm) \<longrightarrow>
            segment_plotter working_data measure_dict title figsize path start end step fsys =
              (Inl (KeyError ''sample_rate''), snd (normalize_path path fsys)))
       \<and> fs_files (snd (normalize_path path fsys)) = fs_files fsys"
proof -
  from assms(4,5) obtain end' where e: "checked_end end (length hr) = Inr end'" and lt: "start < end'"
    by (auto simp: checked_end_def)
  have len: "py_len (PList hr) = Inr (length hr)" by (simp add: py_len_def)
  from assms(2) have g: "getitem working_data ''hr'' = Inr (PList hr)"
    by (simp add: getitem_def)
  have run: "segment_plotter working_data measure_dict title figsize path start end step fsys =
      (case segment_view working_data measure_dict start of
         Inl e \<Rightarrow> (Inl e, snd (normalize_path path fsys))
       | Inr _ \<Rightarrow> (Inl (KeyError ''sample_rate''), snd (normalize_path path fsys)))"
    unfolding segment_plotter_checked [OF g len assms(1,3) e]
      py_range_first [OF assms(1) lt] segment_loop_Cons ..
  have items:
    "segment_item (getitem working_data ''peaklist'') start = Inr (peaklist ! nat start)"
    "segment_item (getitem working_data ''ybeat'') start = Inr (ybeat ! nat start)"
    "segment_item (getitem working_data ''removed_beats'') start = Inr (removed_beats ! nat start)"
    "segment_item (getitem working_data ''removed_beats_y'') start = Inr (removed_beats_y ! nat start)"
    "segment_item (getitem working_data ''hr'') start = Inr (hr ! nat start)"
    using assms by (simp_all add: segment_item_def getitem_def subscript_def list_index_def)
  show ?thesis
  proof (intro conjI impI allI)
    assume "working_data ''rolling_mean'' = None"
    then have "segment_view working_data measure_dict start = Inl (KeyError ''rolling_mean'')"
      by (simp add: segment_view_def items) (simp add: segment_item_def getitem_def)
    then show "segment_plotter working_data measure_dict title figsize path start end step fsys =
        (Inl (KeyError ''rolling_mean''), snd (normalize_path path fsys))"
      by (simp add: run)
  next
    fix rolling_mean
    assume "working_data ''rolling_mean'' = Some (PList rolling_mean) \<and> int (length rolling_mean) \<le> start"
    then have "segment_view working_data measure_dict start = Inl IndexError"
      using assms(10)
      by (simp add: segment_view_def items)
         (simp add: segment_item_def getitem_def subscript_def list_index_def)
    then show "segment_plotter working_data measure_dict title figsize path start end step fsys =
        (Inl IndexError, snd (normalize_path path fsys))"
      by (simp add: run)
  next
    fix rolling_mean bpm
    assume a: "working_data ''rolling_mean'' = Some (PList rolling_mean)
       \<and> start < int (length rolling_mean)
       \<and> map_of measure_dict ''bpm'' = Some (PList bpm) \<and> start < int (length bpm)"
    then have more:
      "segment_item (getitem working_data ''rolling_mean'') start = Inr (rolling_mean ! nat start)"
      "segment_item (measure_item measure_dict ''bpm'') start = Inr (bpm ! nat start)"
      using assms(10)
      by (simp_all add: segment_item_def getitem_def measure_item_def subscript_def list_index_def)
    have "\<exists>v. segment_view working_data measure_dict start = Inr v"
      by (simp add: segment_view_def items more Let_def split: sum.splits)
    then show "segment_plotter working_data measure_dict title figsize path start end step fsys =
        (Inl (KeyError ''sample_rate''), snd (normalize_path path fsys))"
      by (auto simp: run)
  next
    show "fs_files (snd (normalize_path path fsys)) = fs_files fsys"
      by (rule fs_files_normalize_path)
  qed
qed

lemma normalize_out: "snd (normalize_path ''out'' empty_fs) = \<lparr>fs_dirs = [''out/''], fs_files = []\<rparr>"
  by code_simp

theorem segment_plotter_rolling_mean_witness:
  "segment_plotter (example_segments(''rolling_mean'' := None)) example_segment_measures
      ''t'' None ''out'' 0 None 1 empty_fs
     = (Inl (KeyError ''rolling_mean''), \<lparr>fs_dirs = [''out/''], fs_files = []\<rparr>)
   \<and> segment_plotter (example_segments(''rolling_mean'' \<mapsto> PList [])) example_segment_measures
      ''t'' None ''out'' 0 None 1 empty_fs
     = (Inl IndexError, \<lparr>fs_dirs = [''out/''], fs_files = []\<rparr>)
   \<and> segment_plotter (example_segments(''rolling_mean'' \<mapsto> PList [PArray [1, 1]]))
      example_segment_measures ''t'' None ''out'' 0 None 1 empty_fs
     = (Inl (KeyError ''sample_rate''), \<lparr>fs_dirs = [''out/''], fs_files = []\<rparr>)"
proof -
  have a: "segment_plotter (example_segments(''rolling_mean'' := None)) example_segment_measures
      ''t'' None ''out'' 0 None 1 empty_fs
     = (Inl (KeyError ''rolling_mean''), snd (normalize_path ''out'' empty_fs))"
    using segment_plotter_rolling_mean [of 1 "example_segments(''rolling_mean'' := None)"
        "[PArray [1, 2], PArray [3, 4]]" None 0 "[PList [PInt 0], PList [PInt 1]]"
        "[PArray [1], PArray [4]]" "[PArray [], PArray []]" "[PArray [], PArray []]"
        example_segment_measures "''t''" None "''out''" empty_fs]
    by (simp add: example_segments_def)
  have b: "segment_plotter (example_segments(''rolling_mean'' \<mapsto> PList [])) example_segment_measures
      ''t'' None ''out'' 0 None 1 empty_fs
     = (Inl IndexError, snd (normalize_path ''out'' empty_fs))"
    using segment_plotter_rolling_mean [of 1 "example_segments(''rolling_mean'' \<mapsto> PList [])"
        "[PArray [1, 2], PArray [3, 4]]" None 0 "[PList [PInt 0], PList [PInt 1]]"
        "[PArray [1], PArray [4]]" "[PArray [], PArray []]" "[PArray [], PArray []]"
        example_segment_measures "''t''" None "''out''" empty_fs]
    by (simp add: example_segments_def)
  have c: "segment_plotter (example_segments(''rolling_mean'' \<mapsto> PList [PArray [1, 1]]))
      example_segment_measures ''t'' None ''out'' 0 None 1 empty_fs
     = (Inl (KeyError ''sample_rate''), snd (normalize_path ''out'' empty_fs))"
    using segment_plotter_rolling_mean [of 1
        "example_segments(''rolling_mean'' \<mapsto> PList [PArray [1, 1]])"
        "[PArray [1, 2], PArray [3, 4]]" None 0 "[PList [PInt 0], PList [PInt 1]]"
        "[PArray [1], PArray [4]]" "[PArray [], PArray []]" "[PArray [], PArray []]"
        example_segment_measures "''t''" None "''out''" empty_fs]
    by (simp add: example_segments_def example_segment_measures_def)
  show ?thesis
    using a b c by (simp add: normalize_out)
qed

section \<open>Properties of the report formatter\<close>

lemma parse_spec_l14: "parse_spec ''<14'' = Inr \<lparr>fs_fill = None, fs_align = Some AlignLeft, fs_sign = None, fs_alt = False, fs_zero = False, fs_width = Some 14, fs_prec = None, fs_type = None\<rparr>"
  by code_simp

lemma parse_spec_l15: "parse_spec ''<15'' = Inr \<lparr>fs_fill = None, fs_align = Some AlignLeft, fs_sign = None, fs_alt = False, fs_zero = False, fs_width = Some 15, fs_prec = None, fs_type = None\<rparr>"
  by code_simp

lemma parse_spec_table: "parse_spec ''< #15.3g'' = Inr \<lparr>fs_fill = None, fs_align = Some AlignLeft, fs_sign = Some SignSpace, fs_alt = True, fs_zero = False, fs_width = Some 15, fs_prec = Some 3, fs_type = Some (CHR ''g'')\<rparr>"
  by code_simp

lemma parse_spec_csv9: "parse_spec ''#.9g'' = Inr \<lparr>fs_fill = None, fs_align = None, fs_sign = None, fs_alt = True, fs_zero = False, fs_width = None, fs_prec = Some 9, fs_type = Some (CHR ''g'')\<rparr>"
  by code_simp

lemma parse_spec_csv3: "parse_spec ''#0.3g'' = Inr \<lparr>fs_fill = None, fs_align = None, fs_sign = None, fs_alt = True, fs_zero = True, fs_width = None, fs_prec = Some 3, fs_type = Some (CHR ''g'')\<rparr>"
  by code_simp

lemmas parse_specs = parse_spec_l14 parse_spec_l15 parse_spec_table parse_spec_csv9 parse_spec_csv3

lemmas format_defs = split_field_def field_spec_def format_field_def format_str_def
  format_float_def format_int_def int_to_float_def pad_def

lemma header_rows:
  "py_format ''{:<14} {:<15}\<newline>'' [FStr a, FStr b] = Inr (ljust 14 a @ '' '' @ ljust 15 b @ ''\<newline>'')"
  "py_format ''{},{}\<newline>'' [FStr a, FStr b] = Inr (a @ '','' @ b @ ''\<newline>'')"
  by (simp_all add: py_format.simps format_defs parse_specs ljust_def)

lemma table_row:
  assumes "formattable v"
  shows "py_format ''{:<14} {:< #15.3g}\<newline>'' [FStr l, FVal v] = Inr (row_layout False p l (float_value v))"
  using assms
  by (cases v)
     (simp_all add: formattable_def float_value_def py_format.simps format_defs parse_specs Let_def
        row_layout_def table_value_def ljust_def)

lemma csv_row9:
  assumes "formattable v"
  shows "py_format ''{},{:#.9g}\<newline>'' [FStr l, FVal v] = Inr (row_layout True 9 l (float_value v))"
  using assms
  by (cases v)
     (simp_all add: formattable_def float_value_def py_format.simps format_defs parse_specs Let_def
        row_layout_def csv_value_def)

lemma csv_row3:
  assumes "formattable v"
  shows "py_format ''{},{:#0.3g}\<newline>'' [FStr l, FVal v] = Inr (row_layout True 3 l (float_value v))"
  using assms
  by (cases v)
     (simp_all add: formattable_def float_value_def py_format.simps format_defs parse_specs Let_def
        row_layout_def csv_value_def)

lemma table_lines_table:
  assumes "\<forall>(k, v) \<in> set ms. formattable v"
  shows "table_lines ''{:<14} {:< #15.3g}\<newline>'' ms out =
     Inr (out @ concat (map (\<lambda>(key, v). row_layout False 9 (label_formatter key) (float_value v)) ms))"
  using assms
proof (induction ms arbitrary: out)
  case Nil
  then show ?case by simp
next
  case (Cons kv ms)
  obtain k v where kv: "kv = (k, v)" by (cases kv)
  with Cons.prems have "formattable v" and rest: "\<forall>(k, v) \<in> set ms. formattable v" by auto
  then show ?case
    by (simp add: kv table_row [where p = 9] Cons.IH [OF rest])
qed

lemma table_lines_csv:
  assumes "\<forall>(k, v) \<in> set ms. formattable v"
  shows "table_lines ''{},{:#.9g}\<newline>'' ms out =
     Inr (out @ concat (map (\<lambda>(key, v). row_layout True 9 (label_formatter key) (float_value v)) ms))"
  using assms
proof (induction ms arbitrary: out)
  case Nil
  then show ?case by simp
next
  case (Cons kv ms)
  obtain k v where kv: "kv = (k, v)" by (cases kv)
  with Cons.prems have "formattable v" and rest: "\<forall>(k, v) \<in> set ms. formattable v" by auto
  then show ?case
    by (simp add: kv csv_row9 Cons.IH [OF rest])
qed

lemma count_finite:
  assumes "k < 2 ^ 63"
  shows "\<bar>fl (real k)\<bar> \<le> max_double"
proof (rule fl_finite)
  have "real k < 2 ^ 63" using assms by (metis of_nat_less_iff of_nat_numeral of_nat_power)
  also have "\<dots> \<le> (2::real) ^ 1000" by (rule power_increasing) simp_all
  finally show "\<bar>real k\<bar> \<le> 2 ^ 1000" by simp
qed

lemma percentage_finite:
  assumes "k < 2 ^ 63" and "0 < n"
  shows "\<bar>fl (real (100 * k) / real n)\<bar> \<le> max_double"
proof (rule fl_finite)
  have k: "real k < 2 ^ 63" using assms(1) by (metis of_nat_less_iff of_nat_numeral of_nat_power)
  have "1 \<le> real n" using assms(2) by simp
  then have "real (100 * k) / real n \<le> real (100 * k) / 1"
    by (intro divide_left_mono) simp_all
  also have "\<dots> \<le> 2 ^ 7 * 2 ^ 63" using k by simp
  also have "\<dots> = (2::real) ^ 70" by (simp only: power_add [symmetric]) simp
  also have "\<dots> \<le> (2::real) ^ 1000" by (rule power_increasing) simp_all
  finally show "\<bar>real (100 * k) / real n\<bar> \<le> 2 ^ 1000" by simp
qed

lemma percentage_error:
  assumes "0 < n" and "n < 2 ^ 63"
  shows "\<bar>fl (real (100 * k) / real n) - real (100 * k) / real n\<bar>
           \<le> real (100 * k) / real n / 2 ^ 53"
proof (cases "k = 0")
  case True
  then show ?thesis by (simp add: fl_def)
next
  case False
  define q where "q = real (100 * k) / real n"
  have n: "real n < 2 ^ 63"
    using assms(2) by (metis of_nat_less_iff of_nat_numeral of_nat_power)
  have "1 \<le> real (100 * k)" using False by simp
  then have "1 / 2 ^ 63 \<le> real (100 * k) / real n"
    using n assms(1) by (intro frac_le) simp_all
  moreover have "(2::real) powr (- 1022) \<le> 1 / 2 ^ 63"
  proof -
    have "(2::real) powr (- 1022) \<le> 2 powr (- 63)" by (rule powr_mono) simp_all
    also have "\<dots> = 1 / 2 ^ 63" by (simp add: powr_minus_divide powr_realpow [symmetric])
    finally show ?thesis .
  qed
  ultimately have "2 powr (- 1022) \<le> \<bar>q\<bar>" by (simp add: q_def)
  from fl_relative_error [OF this] have "\<bar>fl q - q\<bar> \<le> \<bar>q\<bar> / 2 ^ 53" .
  moreover have "0 \<le> q" by (simp add: q_def)
  ultimately show ?thesis by (simp add: q_def)
qed

lemma report_numeric:
  assumes "\<forall>(k, v) \<in> set measure_dict. formattable v"
    and "getitem working_data ''best'' = Inr best" and "formattable best"
    and "getitem working_data ''removed_beats'' = Inr removed_beats"
    and "py_len removed_beats = Inr k" and "k < 2 ^ 63"
    and "getitem working_data ''RR_list'' = Inr rr_list" and "py_len rr_list = Inr n"
  shows "report working_data measure_dict outfile csvfile =
     (if n = 0 then Inl ZeroDivisionError
      else Inr (emit outfile (report_layout csvfile measure_dict (float_value best) k n)))"
proof (cases "n = 0")
  case True
  with assms show ?thesis
    by (cases csvfile)
       (simp_all add: report_def header_rows table_lines_csv table_lines_table csv_row3
          table_row [where p = 3] int_truediv_def Let_def)
next
  case False
  then have pc: "\<not> max_double < \<bar>fl (real (100 * k) / real n)\<bar>"
    using percentage_finite [OF assms(6), of n] by simp
  have fk: "formattable (PInt (int k))" "formattable (PFloat q)" for q
    using count_finite [OF assms(6)] by (simp_all add: formattable_def)
  have vk: "float_value (PInt (int k)) = fl (real k)" "float_value (PFloat q) = q" for q
    by (simp_all add: float_value_def)
  note rows = table_row [OF fk(1), where p = 3] table_row [OF fk(2), where p = 3]
    table_row [OF assms(3), where p = 3] csv_row3 [OF fk(1)] csv_row3 [OF fk(2)]
    csv_row3 [OF assms(3)]
  show ?thesis
  proof (cases csvfile)
    case True
    with False pc assms(1,2,4,5,7,8) show ?thesis
      by (simp add: report_def header_rows table_lines_csv rows vk int_truediv_def
          report_layout_def header_layout_def emit_def Let_def split: option.split)
  next
    case csv: False
    with False pc assms(1,2,4,5,7,8) show ?thesis
      by (simp add: report_def header_rows table_lines_table rows vk int_truediv_def
          report_layout_def header_layout_def emit_def Let_def split: option.split)
  qed
qed

lemma report_overflow:
  assumes "max_double < \<bar>fl (of_int i)\<bar>"
  shows "report working_data ((key, PInt i) # measure_dict) outfile csvfile = Inl OverflowError"
  using assms
  by (cases csvfile)
     (simp_all add: report_def header_rows py_format.simps format_defs parse_specs Let_def)

text \<open>
  C4, as claimed: the table signs its metric values but not the three summary values,
  and file or CSV output always carries explicit sign markers. The code formats a
  summary value of the table with the very format of a metric value, and no CSV value
  gets a sign character unless it is negative: the report of the measures
  \<^verbatim>\<open>{'bpm': 72.345, 'sdnn': 45.1}\<close> with \<^verbatim>\<open>best = 30.0\<close>, two removed beats and fifty
  RR intervals, as a table on the console and as CSV in a file.
\<close>

theorem report_formats_counterexample:
  "report example_report_data example_report_measures None False =
     Inr (Stdout (''Measure        Value          \<newline>''
                @ ''-----------    ---------      \<newline>''
                @ ''BPM             72.3          \<newline>''
                @ ''SDNN (ms)       45.1          \<newline>''
                @ ''\<newline>''
                @ ''Best MA (%)     30.0          \<newline>''
                @ ''Excl. peaks     2.00          \<newline>''
                @ ''Excl. %         4.00          \<newline>''
                @ ''\<newline>''))
   \<and> report example_report_data example_report_measures (Some ''report.csv'') True =
     Inr (FileWrite ''report.csv''
               (''Measure,Value\<newline>''
                @ ''-----------,---------\<newline>''
                @ ''BPM,72.3450000\<newline>''
                @ ''SDNN (ms),45.1000000\<newline>''
                @ ''Best MA (%),30.0\<newline>''
                @ ''Excl. peaks,2.00\<newline>''
                @ ''Excl. %,4.00\<newline>''))"
  by code_simp

text \<open>
  C4, amended. The format follows the flag \<^verbatim>\<open>csvfile\<close>. A table printed on the console
  renders every value, of a metric row or of a summary row alike, in general format
  with 3 significant digits, left-aligned in 15 columns, with a space in the sign
  column unless the value is negative. CSV output, printed or written to a file,
  renders a metric value with 9 significant digits and a summary value with 3, with
  no sign character unless the value is negative. The value rendered is a binary64
  number: a \<^verbatim>\<open>float\<close> measure itself, the \<^verbatim>\<open>float\<close> of an \<^verbatim>\<open>int\<close> measure and of the
  number of removed beats, and the correctly rounded quotient \<open>100 k / N\<close>. This holds
  for measures that have a \<^verbatim>\<open>float\<close> (an \<^verbatim>\<open>int\<close> beyond the range ends the report with
  an overflow error, \<open>report_overflow\<close>) and fewer than \<open>2\<^sup>6\<^sup>3\<close> removed beats.
\<close>

theorem report_formats:
  assumes "\<forall>(key, v) \<in> set measure_dict. formattable v"
    and "working_data ''best'' = Some best" and "formattable best"
    and "working_data ''removed_beats'' = Some removed_beats"
    and "py_len removed_beats = Inr k" and "k < 2 ^ 63"
    and "working_data ''RR_list'' = Some rr_list" and "py_len rr_list = Inr n" and "0 < n"
  shows "report working_data measure_dict None False =
           Inr (Stdout (report_layout False measure_dict (float_value best) k n @ ''\<newline>''))
       \<and> report working_data measure_dict None True =
           Inr (Stdout (report_layout True measure_dict (float_value best) k n @ ''\<newline>''))
       \<and> report working_data measure_dict (Some name) True =
           Inr (FileWrite name (report_layout True measure_dict (float_value best) k n))"
proof -
  have g: "getitem working_data ''best'' = Inr best"
    "getitem working_data ''removed_beats'' = Inr removed_beats"
    "getitem working_data ''RR_list'' = Inr rr_list"
    using assms by (simp_all add: getitem_def)
  show ?thesis
    using \<open>0 < n\<close>
    by (simp add: report_numeric [OF assms(1) g(1) assms(3) g(2) assms(5) assms(6) g(3) assms(8)]
        emit_def)
qed

theorem report_formats_witness:
  "report example_report_data [(''bpm'', PFloat (- 1.5)), (''n_peaks'', PInt 12)] (Some ''r.csv'') True =
     Inr (FileWrite ''r.csv''
               (''Measure,Value\<newline>''
                @ ''-----------,---------\<newline>''
                @ ''BPM,-1.50000000\<newline>''
                @ ''N_PEAKS,12.0000000\<newline>''
                @ ''Best MA (%),30.0\<newline>''
                @ ''Excl. peaks,2.00\<newline>''
                @ ''Excl. %,4.00\<newline>''))
   \<and> report example_report_data [(''bpm'', PFloat (- 1.5)), (''n_peaks'', PInt 12)] None False =
     Inr (Stdout (''Measure        Value          \<newline>''
                @ ''-----------    ---------      \<newline>''
                @ ''BPM            -1.50          \<newline>''
                @ ''N_PEAKS         12.0          \<newline>''
                @ ''\<newline>''
                @ ''Best MA (%)     30.0          \<newline>''
                @ ''Excl. peaks     2.00          \<newline>''
                @ ''Excl. %         4.00          \<newline>''
                @ ''\<newline>''))"
proof -
  have twelve: "\<bar>fl (of_int 12)\<bar> \<le> max_double"
    by code_simp
  have nums: "\<forall>(key, v) \<in> set [(''bpm'', PFloat (- 1.5)), (''n_peaks'', PInt 12)]. formattable v"
    using twelve by (simp add: formattable_def)
  have wd: "example_report_data ''best'' = Some (PFloat 30)" "formattable (PFloat 30)"
    "example_report_data ''removed_beats'' = Some (PList [PInt 1, PInt 2])"
    "py_len (PList [PInt 1, PInt 2]) = Inr 2" "(2::nat) < 2 ^ 63"
    "example_report_data ''RR_list'' = Some (PList (replicate 50 (PInt 800)))"
    "py_len (PList (replicate 50 (PInt 800))) = Inr 50" "(0::nat) < 50"
    by (simp_all add: example_report_data_def formattable_def py_len_def)
  have csv: "report_layout True [(''bpm'', PFloat (- 1.5)), (''n_peaks'', PInt 12)] (float_value (PFloat 30)) 2 50
      = ''Measure,Value\<newline>'' @ ''-----------,---------\<newline>'' @ ''BPM,-1.50000000\<newline>''
        @ ''N_PEAKS,12.0000000\<newline>'' @ ''Best MA (%),30.0\<newline>'' @ ''Excl. peaks,2.00\<newline>''
        @ ''Excl. %,4.00\<newline>''"
    by code_simp
  have tab: "report_layout False [(''bpm'', PFloat (- 1.5)), (''n_peaks'', PInt 12)] (float_value (PFloat 30)) 2 50
      = ''Measure        Value          \<newline>'' @ ''-----------    ---------      \<newline>''
        @ ''BPM            -1.50          \<newline>'' @ ''N_PEAKS         12.0          \<newline>''
        @ ''\<newline>'' @ ''Best MA (%)     30.0          \<newline>''
        @ ''Excl. peaks     2.00          \<newline>'' @ ''Excl. %         4.00          \<newline>''"
    by code_simp
  from report_formats [of _ example_report_data, OF nums wd, of "''r.csv''"]
  show ?thesis unfolding csv tab by simp
qed

text \<open>
  C5. For removed beats of length \<open>k\<close> and an RR list of length \<open>N > 0\<close> the last row
  of the report is the row \<^verbatim>\<open>Excl. %\<close>, and its value is the quotient \<open>100 k / N\<close> as
  the division of two \<^verbatim>\<open>int\<close>s yields it: the binary64 number nearest to it, which
  differs from the quotient by at most its \<open>2\<^sup>5\<^sup>3\<close>-th part. For \<open>N = 0\<close> the report ends
  with the division error, which no handler catches, and nothing is printed or
  written. With 201 removed beats of 2000 the value is the binary64 number just
  above 10.05, and the row shows \<^verbatim>\<open>10.1\<close>.
\<close>

theorem report_rejection_percentage:
  assumes "\<forall>(key, v) \<in> set measure_dict. formattable v"
    and "working_data ''best'' = Some best" and "formattable best"
    and "working_data ''removed_beats'' = Some removed_beats"
    and "py_len removed_beats = Inr k" and "k < 2 ^ 63"
    and "working_data ''RR_list'' = Some rr_list" and "py_len rr_list = Inr n"
  shows "(0 < n \<longrightarrow> (\<exists>head. report working_data measure_dict outfile csvfile =
            Inr (emit outfile
                   (head @ row_layout csvfile 3 ''Excl. %'' (fl (real (100 * k) / real n))))))
       \<and> (0 < n \<and> n < 2 ^ 63 \<longrightarrow>
            \<bar>fl (real (100 * k) / real n) - real (100 * k) / real n\<bar>
              \<le> real (100 * k) / real n / 2 ^ 53)
       \<and> (n = 0 \<longrightarrow> report working_data measure_dict outfile csvfile = Inl ZeroDivisionError)"
proof -
  have g: "getitem working_data ''best'' = Inr best"
    "getitem working_data ''removed_beats'' = Inr removed_beats"
    "getitem working_data ''RR_list'' = Inr rr_list"
    using assms by (simp_all add: getitem_def)
  note r = report_numeric [OF assms(1) g(1) assms(3) g(2) assms(5) assms(6) g(3) assms(8)]
  show ?thesis
  proof (intro conjI impI)
    assume "0 < n"
    then have "report working_data measure_dict outfile csvfile =
        Inr (emit outfile
          ((header_layout csvfile
            @ concat (map (\<lambda>(key, v). row_layout csvfile 9 (label_formatter key) (float_value v))
                measure_dict)
            @ (if csvfile then '''' else ''\<newline>'')
            @ row_layout csvfile 3 ''Best MA (%)'' (float_value best)
            @ row_layout csvfile 3 ''Excl. peaks'' (fl (real k)))
           @ row_layout csvfile 3 ''Excl. %'' (fl (real (100 * k) / real n))))"
      by (simp add: r report_layout_def)
    then show "\<exists>head. report working_data measure_dict outfile csvfile =
        Inr (emit outfile (head @ row_layout csvfile 3 ''Excl. %'' (fl (real (100 * k) / real n))))"
      by blast
  next
    assume "0 < n \<and> n < 2 ^ 63"
    then show "\<bar>fl (real (100 * k) / real n) - real (100 * k) / real n\<bar>
        \<le> real (100 * k) / real n / 2 ^ 53"
      using percentage_error [of n k] by simp
  next
    assume "n = 0"
    then show "report working_data measure_dict outfile csvfile = Inl ZeroDivisionError"
      by (simp add: r)
  qed
qed

theorem report_rejection_percentage_witness:
  "(\<exists>head. report example_report_data example_report_measures None False =
        Inr (Stdout (head @ ''Excl. %         4.00          \<newline>'' @ ''\<newline>'')))
   \<and> (\<exists>head. report (example_report_data(''removed_beats'' \<mapsto> PList (replicate 201 (PInt 1)),
                                             ''RR_list'' \<mapsto> PList (replicate 2000 (PInt 800))))
               example_report_measures None False =
        Inr (Stdout (head @ ''Excl. %         10.1          \<newline>'' @ ''\<newline>'')))
   \<and> report (example_report_data(''RR_list'' \<mapsto> PList [])) example_report_measures None False =
        Inl ZeroDivisionError"
proof -
  have nums: "\<forall>(key, v) \<in> set example_report_measures. formattable v"
    by (simp add: example_report_measures_def formattable_def)
  have wd: "example_report_data ''best'' = Some (PFloat 30)" "formattable (PFloat 30)"
    "example_report_data ''removed_beats'' = Some (PList [PInt 1, PInt 2])"
    "py_len (PList [PInt 1, PInt 2]) = Inr 2" "(2::nat) < 2 ^ 63"
    "example_report_data ''RR_list'' = Some (PList (replicate 50 (PInt 800)))"
    "py_len (PList (replicate 50 (PInt 800))) = Inr 50"
    by (simp_all add: example_report_data_def formattable_def py_len_def)
  let ?long = "example_report_data(''removed_beats'' \<mapsto> PList (replicate 201 (PInt 1)),
                                    ''RR_list'' \<mapsto> PList (replicate 2000 (PInt 800)))"
  have wd1: "?long ''best'' = Some (PFloat 30)"
    "?long ''removed_beats'' = Some (PList (replicate 201 (PInt 1)))"
    "py_len (PList (replicate 201 (PInt 1))) = Inr 201" "(201::nat) < 2 ^ 63"
    "?long ''RR_list'' = Some (PList (replicate 2000 (PInt 800)))"
    "py_len (PList (replicate 2000 (PInt 800))) = Inr 2000"
    by (simp_all add: example_report_data_def py_len_def)
  have wd0: "(example_report_data(''RR_list'' \<mapsto> PList [])) ''best'' = Some (PFloat 30)"
    "(example_report_data(''RR_list'' \<mapsto> PList [])) ''removed_beats'' = Some (PList [PInt 1, PInt 2])"
    "(example_report_data(''RR_list'' \<mapsto> PList [])) ''RR_list'' = Some (PList [])"
    "py_len (PList []) = Inr 0"
    by (simp_all add: example_report_data_def py_len_def)
  have q: "real (100 * 2) / real 50 = 4" "real (100 * 201) / real 2000 = 201 / 20"
    by simp_all
  have row: "row_layout False 3 ''Excl. %'' (fl 4) = ''Excl. %         4.00          \<newline>''"
    "row_layout False 3 ''Excl. %'' (fl (201 / 20)) = ''Excl. %         10.1          \<newline>''"
    by code_simp+
  from report_rejection_percentage [of _ example_report_data, OF nums wd, of None False]
  have a: "\<exists>head. report example_report_data example_report_measures None False =
        Inr (Stdout (head @ ''Excl. %         4.00          \<newline>'' @ ''\<newline>''))"
    unfolding q row by (simp add: emit_def)
  from report_rejection_percentage [of _ ?long, OF nums wd1(1) wd(2) wd1(2-6), of None False]
  have c: "\<exists>head. report ?long example_report_measures None False =
        Inr (Stdout (head @ ''Excl. %         10.1          \<newline>'' @ ''\<newline>''))"
    unfolding q row by (simp add: emit_def)
  from report_rejection_percentage [of _ "example_report_data(''RR_list'' \<mapsto> PList [])",
      OF nums wd0(1) wd(2) wd0(2) wd(4) wd(5) wd0(3) wd0(4), of None False]
  have b: "report (example_report_data(''RR_list'' \<mapsto> PList [])) example_report_measures None False =
        Inl ZeroDivisionError"
    by simp
  from a c b show ?thesis by simp
qed

section \<open>Properties of the Poincare plotter\<close>

lemma rotate_vec_45: "rotate_vec 0 s 45 = (- (s * sqrt 2 / 2), s * sqrt 2 / 2)"
proof -
  have r: "radians 45 = pi / 4" by (simp add: radians_def)
  show ?thesis
    unfolding rotate_vec_def Let_def r by (simp add: cos_45 sin_45)
qed

text \<open>
  C6, as claimed, holds for every Poincare input. For empty sequences
  \<^verbatim>\<open>np.min([x_plus, x_minus])\<close> is a reduction over no element and raises
  \<^verbatim>\<open>ValueError\<close> before any line or ellipse is drawn.
\<close>

theorem plot_poincare_empty_counterexample:
  "plot_poincare empty_poincare example_poincare_measures False None ''Poincare plot''
     = Inl ValueError"
  by (simp add: plot_poincare_def empty_poincare_def example_poincare_measures_def getitem_def
      subscript_key_def measure_item_def as_array_def ax_scatter_def np_min2_def Let_def)

text \<open>
  C6, amended. For non-empty sequences \<^verbatim>\<open>x_plus\<close>, \<^verbatim>\<open>x_minus\<close> of equal length and
  scalars \<^verbatim>\<open>sd1\<close>, \<^verbatim>\<open>sd2\<close> the plotter succeeds and draws, after the scatter and the
  identity line: the SD1 line from the centre \<open>(mean x_plus, mean x_minus)\<close> to the
  centre plus the rotation of \<open>(0, sd1)\<close> by 45 degrees; the SD2 line from the centre
  to the centre plus the rotation of \<open>(0, sd2)\<close> with its x component negated; and an
  unfilled ellipse at the centre of width \<open>2 sd2\<close>, height \<open>2 sd1\<close> and angle 45. The
  rotation of \<open>(0, s)\<close> by 45 degrees is \<open>(- s \<surd>2 / 2, s \<surd>2 / 2)\<close>, so the SD1 line runs
  across the identity line and the SD2 line along it.
\<close>

theorem plot_poincare_geometry:
  assumes "working_data ''poincare'' = Some (PDict poincare)"
    and "map_of poincare ''x_plus'' = Some x_plus_value" and "as_array x_plus_value = Inr x_plus"
    and "map_of poincare ''x_minus'' = Some x_minus_value"
    and "as_array x_minus_value = Inr x_minus"
    and "length x_plus = length x_minus" and "x_plus \<noteq> []"
    and "map_of measure_dict ''sd1'' = Some sd1_value" and "scalar_arg sd1_value = Inr sd1"
    and "map_of measure_dict ''sd2'' = Some sd2_value" and "scalar_arg sd2_value = Inr sd2"
  shows "plot_poincare working_data measure_dict show figsize title =
     Inr (finish show
       \<lparr>fig_size = figsize, fig_title = title,
        fig_xlabel = ''RRi_n (ms)'', fig_ylabel = ''RRi_n+1 (ms)'',
        fig_artists =
          [Scatter x_plus x_minus ''peak-peak intervals'',
           Line (np_linspace (Min (set (x_plus @ x_minus))) (Max (set (x_plus @ x_minus))))
                (np_linspace (Min (set (x_plus @ x_minus))) (Max (set (x_plus @ x_minus))))
                ''identity line'',
           Line [np_mean x_plus, np_mean x_plus + fst (rotate_vec 0 sd1 45)]
                [np_mean x_minus, np_mean x_minus + snd (rotate_vec 0 sd1 45)] ''SD1'',
           Line [np_mean x_plus, np_mean x_plus - fst (rotate_vec 0 sd2 45)]
                [np_mean x_minus, np_mean x_minus + snd (rotate_vec 0 sd2 45)] ''SD2'',
           EllipsePatch (np_mean x_plus, np_mean x_minus) (2 * sd2) (2 * sd1) 45 False]\<rparr>)
     \<and> rotate_vec 0 sd1 45 = (- (sd1 * sqrt 2 / 2), sd1 * sqrt 2 / 2)
     \<and> rotate_vec 0 sd2 45 = (- (sd2 * sqrt 2 / 2), sd2 * sqrt 2 / 2)"
  using assms
  by (simp add: plot_poincare_def getitem_def subscript_key_def measure_item_def ax_scatter_def
      ax_plot_def np_min2_def np_max2_def np_linspace_def add_artist_def subplots_def
      rotate_vec_45 Let_def mult.commute)

theorem plot_poincare_geometry_witness:
  "plot_poincare example_poincare example_poincare_measures False None ''Poincare plot'' =
     Inr (Returned
       \<lparr>fig_size = None, fig_title = ''Poincare plot'',
        fig_xlabel = ''RRi_n (ms)'', fig_ylabel = ''RRi_n+1 (ms)'',
        fig_artists =
          [Scatter [800, 820] [810, 815] ''peak-peak intervals'',
           Line (np_linspace 800 820) (np_linspace 800 820) ''identity line'',
           Line [810, 810 - 10 * sqrt 2 / 2] [1625 / 2, 1625 / 2 + 10 * sqrt 2 / 2] ''SD1'',
           Line [810, 810 + 20 * sqrt 2 / 2] [1625 / 2, 1625 / 2 + 20 * sqrt 2 / 2] ''SD2'',
           EllipsePatch (810, 1625 / 2) 40 20 45 False]\<rparr>)"
proof -
  have h: "example_poincare ''poincare'' =
      Some (PDict [(''x_plus'', PList [PInt 800, PInt 820]), (''x_minus'', PList [PInt 810, PInt 815])])"
    "map_of [(''x_plus'', PList [PInt 800, PInt 820]), (''x_minus'', PList [PInt 810, PInt 815])] ''x_plus''
       = Some (PList [PInt 800, PInt 820])"
    "as_array (PList [PInt 800, PInt 820]) = Inr [800, 820]"
    "map_of [(''x_plus'', PList [PInt 800, PInt 820]), (''x_minus'', PList [PInt 810, PInt 815])] ''x_minus''
       = Some (PList [PInt 810, PInt 815])"
    "as_array (PList [PInt 810, PInt 815]) = Inr [810, 815]"
    "length [800, 820 :: real] = length [810, 815 :: real]" "[800, 820 :: real] \<noteq> []"
    "map_of example_poincare_measures ''sd1'' = Some (PInt 10)" "scalar_arg (PInt 10) = Inr 10"
    "map_of example_poincare_measures ''sd2'' = Some (PInt 20)" "scalar_arg (PInt 20) = Inr 20"
    by (simp_all add: example_poincare_def example_poincare_measures_def as_array_def scalar_arg_def)
  from plot_poincare_geometry [of example_poincare, OF h, of False None "''Poincare plot''"]
  show ?thesis
    by (simp add: rotate_vec_45 np_mean_def finish_def)
qed

section \<open>Properties of the single-record signal plotter\<close>

















text \<open>
  The time axis \<^verbatim>\<open>np.arange(0, len(hr)/fs, 1/fs)\<close> does not always have as many points as
  the signal has samples. At 100 Hz the quotient of \<open>fl (7 / 100)\<close> by \<open>fl (1 / 100)\<close>
  is above 7 in binary64, so seven samples get an axis of eight points, and drawing
  the signal against it fails with \<^verbatim>\<open>ValueError\<close>; three samples get three points.
\<close>

theorem plotter_time_axis_length:
  "map_option length (case time_axis 7 100 of Inl e \<Rightarrow> None | Inr xs \<Rightarrow> Some xs) = Some 8
   \<and> plotter (example_signal(''hr'' \<mapsto> PArray [1, 2, 3, 4, 5, 6, 7])) example_signal_measures
        False None ''Heart Rate Signal Peak Detection'' False = Inl ValueError
   \<and> map_option length (case time_axis 3 100 of Inl e \<Rightarrow> None | Inr xs \<Rightarrow> Some xs) = Some 3"
  by code_simp

section \<open>Further properties\<close>

text \<open>
  The rotation preserves the length of the vector, the rotation by 0 degrees is the
  identity, and \<open>(0, 1)\<close> rotated by -90 degrees is \<open>(1, 0)\<close>, the example of the
  docstring.
\<close>

theorem rotate_vec_testable:
  "(fst (rotate_vec x y angle))\<^sup>2 + (snd (rotate_vec x y angle))\<^sup>2 = x\<^sup>2 + y\<^sup>2
   \<and> rotate_vec x y 0 = (x, y)
   \<and> rotate_vec 0 1 (- 90) = (1, 0)"
proof (intro conjI)
  have sq: "(x * c - y * s)\<^sup>2 + (x * s + y * c)\<^sup>2 = (x\<^sup>2 + y\<^sup>2) * (s\<^sup>2 + c\<^sup>2)"
    for c s :: real
    by (simp add: power2_eq_square algebra_simps)
  have "(x * cos t - y * sin t)\<^sup>2 + (x * sin t + y * cos t)\<^sup>2 = x\<^sup>2 + y\<^sup>2" for t :: real
    unfolding sq by simp
  then show "(fst (rotate_vec x y angle))\<^sup>2 + (snd (rotate_vec x y angle))\<^sup>2 = x\<^sup>2 + y\<^sup>2"
    by (simp add: rotate_vec_def Let_def)
next
  show "rotate_vec x y 0 = (x, y)"
    by (simp add: rotate_vec_def radians_def Let_def)
next
  have r: "radians (- 90) = - (pi / 2)" by (simp add: radians_def)
  show "rotate_vec 0 1 (- 90) = (1, 0)"
    unfolding rotate_vec_def Let_def r by simp
qed

text \<open>
  Whatever its arguments, the segment batch driver leaves the files of the file
  system as they were: every visited segment fails in the plotter before a figure
  is saved.
\<close>

theorem segment_plotter_never_writes:
  "fs_files (snd (segment_plotter working_data measure_dict title figsize path start end step fsys))
     = fs_files fsys"
  by (simp add: segment_plotter_def segment_loop_state fs_files_normalize_path
      split: sum.splits prod.splits)
    (metis fs_files_normalize_path snd_conv)

text \<open>
  The indices the loop of the driver ranges over, for a positive step: \<open>start\<close>,
  \<open>start + step\<close>, and so on, as long as they are below the end; with step 2 over five
  segments these are 0, 2 and 4.
\<close>

lemma py_range_step:
  assumes "0 < s"
  shows "py_range i e s = map (\<lambda>k. i + int k * s) [0..<nat ((e - i + s - 1) div s)]"
  using assms
proof (induction i e s rule: py_range.induct)
  case (1 i e s)
  show ?case
  proof (cases "i < e")
    case False
    with 1 have "e - i + s - 1 \<le> s - 1" by simp
    from zdiv_mono1 [OF this, of s] 1 have "(e - i + s - 1) div s \<le> 0"
      by simp
    with False 1 show ?thesis
      by (subst py_range.simps) simp
  next
    case True
    with 1 have pos: "0 < (e - i + s - 1) div s"
      by (simp add: pos_imp_zdiv_pos_iff)
    have shift: "(e - (i + s) + s - 1) div s = (e - i + s - 1) div s - 1"
    proof -
      have "e - i + s - 1 = (e - (i + s) + s - 1) + 1 * s" by simp
      then show ?thesis
        using 1(2) by (metis add_diff_cancel_right' div_mult_self1 less_irrefl mult.commute add.commute)
    qed
    define n where "n = nat ((e - i + s - 1) div s)"
    from pos have n: "n = Suc (n - 1)" by (simp add: n_def)
    have ih: "py_range (i + s) e s = map (\<lambda>k. i + s + int k * s) [0..<n - 1]"
      using "1.IH" [OF _ 1(2)] True 1(2) shift pos by (simp add: n_def nat_diff_distrib)
    have "map (\<lambda>k. i + int k * s) [0..<n] = i # map (\<lambda>k. i + s + int k * s) [0..<n - 1]"
    proof -
      have "[0..<n] = 0 # map Suc [0..<n - 1]"
        by (subst n) (simp add: upt_conv_Cons map_Suc_upt del: upt_Suc)
      then show ?thesis by (simp add: o_def algebra_simps)
    qed
    with ih True 1(2) show ?thesis
      by (subst py_range.simps) (simp add: n_def)
  qed
qed

theorem py_range_indices:
  assumes "0 < step"
  shows "py_range start stop step
           = map (\<lambda>k. start + int k * step) [0..<nat ((stop - start + step - 1) div step)]
       \<and> (\<forall>i \<in> set (py_range start stop step). start \<le> i \<and> i < stop)"
proof
  show eq: "py_range start stop step
      = map (\<lambda>k. start + int k * step) [0..<nat ((stop - start + step - 1) div step)]"
    by (rule py_range_step [OF assms])
  show "\<forall>i \<in> set (py_range start stop step). start \<le> i \<and> i < stop"
  proof
    fix i assume "i \<in> set (py_range start stop step)"
    then obtain k where k: "k < nat ((stop - start + step - 1) div step)"
      and i: "i = start + int k * step"
      unfolding eq by auto
    from k have "int k + 1 \<le> (stop - start + step - 1) div step" by linarith
    then have "(int k + 1) * step \<le> ((stop - start + step - 1) div step) * step"
      using assms by (simp add: mult_right_mono)
    also have "\<dots> \<le> stop - start + step - 1"
      using assms by (metis mult.commute pos_mod_sign mult_div_mod_eq le_add_same_cancel1)
    finally have "int k * step < stop - start" by (simp add: algebra_simps)
    with assms i show "start \<le> i \<and> i < stop" by simp
  qed
qed

theorem py_range_indices_witness:
  "py_range 0 5 2 = [0, 2, 4] \<and> py_range 0 3 1 = [0, 1, 2]"
proof -
  have "nat (((5::int) - 0 + 2 - 1) div 2) = 3" "nat (((3::int) - 0 + 1 - 1) div 1) = 3" by simp_all
  with py_range_indices [of 2 0 5] py_range_indices [of 1 0 3]
  show ?thesis by (simp add: upt_rec)
qed

text \<open>
  The labels of the report: a key of the table gets its label, any other key is put
  in upper case.
\<close>

theorem label_formatter_examples:
  "label_formatter ''ibi'' = ''IBI (ms)'' \<and> label_formatter ''rmssd'' = ''RMSSD (ms)''
   \<and> label_formatter ''pnn20'' = ''pNN20'' \<and> label_formatter ''lf_nu'' = ''LF (nu)''
   \<and> label_formatter ''bpm'' = ''BPM'' \<and> label_formatter ''breathingrate'' = ''BREATHINGRATE''"
  by code_simp

end
